theory Spec2Isabelle
  imports Main
begin

section \<open>JavaScript values\<close>

text \<open>
  \<open>convertUIConfigToPluginConfig\<close> receives a value of type \<open>unknown\<close>, so the model works
  on untyped JavaScript values. Only what the converter observes of a number is kept: whether
  it is \<open>NaN\<close>, infinite, or a finite value \<open>\<plusminus> m * 2 ^ e\<close> (sign, mantissa, exponent),
  which decides its truthiness. A string is a list of code units below 256 (Latin-1); an object
  is the list of its own properties, where the first binding of a key is the property's value.
\<close>

datatype jsnum = NaN | Infinity bool | Finite bool nat int

datatype jsval =
    JUndefined
  | JNull
  | JBool bool
  | JNum jsnum
  | JStr string
  | JArr "jsval list"
  | JObj "(string \<times> jsval) list"

datatype error = Error string | TypeError

text \<open>ToBoolean: \<open>undefined\<close>, \<open>null\<close>, \<open>false\<close>, \<open>\<plusminus>0\<close>, \<open>NaN\<close> and \<open>""\<close> are falsy.\<close>

fun truthy :: "jsval \<Rightarrow> bool" where
  "truthy JUndefined = False"
| "truthy JNull = False"
| "truthy (JBool b) = b"
| "truthy (JNum NaN) = False"
| "truthy (JNum (Infinity s)) = True"
| "truthy (JNum (Finite s m e)) = (m \<noteq> 0)"
| "truthy (JStr s) = (s \<noteq> [])"
| "truthy (JArr xs) = True"
| "truthy (JObj kvs) = True"

fun typeof :: "jsval \<Rightarrow> string" where
  "typeof JUndefined = ''undefined''"
| "typeof JNull = ''object''"
| "typeof (JBool b) = ''boolean''"
| "typeof (JNum n) = ''number''"
| "typeof (JStr s) = ''string''"
| "typeof (JArr xs) = ''object''"
| "typeof (JObj kvs) = ''object''"

text \<open>
  Reading one of the properties the converter reads (\<open>name\<close>, \<open>agent_name\<close>, \<open>personality\<close>,
  \<open>instructions\<close>, \<open>features\<close>, \<open>apiKeys\<close>, \<open>settings\<close>, \<open>chat\<close>, \<open>automation\<close>, \<open>analytics\<close>,
  \<open>mcpServers\<close>, \<open>creativity\<close>, \<open>enabled\<close>): none of them exists on a prototype, so a
  primitive or an array yields \<open>undefined\<close>. On \<open>null\<close> and \<open>undefined\<close> the read throws; every
  use below is behind a truthiness test of the receiver, except \<open>server.enabled\<close>, where the
  throw is written out.
\<close>

fun get_prop :: "jsval \<Rightarrow> string \<Rightarrow> jsval" where
  "get_prop (JObj kvs) k = (case map_of kvs k of None \<Rightarrow> JUndefined | Some v \<Rightarrow> v)"
| "get_prop v k = JUndefined"

subsection \<open>Strings\<close>

text \<open>\<open>String.prototype.toLowerCase\<close> on code units below 256: A-Z and the Latin-1 capitals.\<close>

definition toLowerChar :: "char \<Rightarrow> char" where
  "toLowerChar c =
     (let n = (of_char c :: nat)
      in if (65 \<le> n \<and> n \<le> 90) \<or> (192 \<le> n \<and> n \<le> 222 \<and> n \<noteq> 215)
         then char_of (n + 32) else c)"

definition toLowerCase :: "string \<Rightarrow> string" where
  "toLowerCase s = map toLowerChar s"

text \<open>The class \<open>\s\<close> below 256: TAB, LF, VT, FF, CR, SP and NBSP.\<close>

definition is_whitespace :: "char \<Rightarrow> bool" where
  "is_whitespace c = ((of_char c :: nat) \<in> {9, 10, 11, 12, 13, 32, 160})"

text \<open>
  \<open>s.replace(/\s+/g, '-')\<close>: scanning left to right, every maximal run of whitespace
  becomes one hyphen. The flag says that the previous code unit belonged to a run.
\<close>

fun replace_runs :: "bool \<Rightarrow> string \<Rightarrow> string" where
  "replace_runs in_run [] = []"
| "replace_runs in_run (c # cs) =
     (if is_whitespace c
      then (if in_run then replace_runs True cs else CHR ''-'' # replace_runs True cs)
      else c # replace_runs False cs)"

definition replace_whitespace :: "string \<Rightarrow> string" where
  "replace_whitespace s = replace_runs False s"

text \<open>The decimal rendering of an array index inside a template literal.\<close>

definition digit_char :: "nat \<Rightarrow> char" where
  "digit_char d = char_of (48 + d)"

fun index_toString :: "nat \<Rightarrow> string" where
  "index_toString n =
     (if n < 10 then [digit_char n]
      else index_toString (n div 10) @ [digit_char (n mod 10)])"

declare index_toString.simps [simp del]

subsection \<open>The runtime the converter calls into\<close>

text \<open>
  The converter draws one identifier from \<open>uuidv4()\<close> and serialises values with
  \<open>JSON.stringify\<close> and numbers with \<open>Number.prototype.toString\<close>. These library functions
  are parameters of the model.
\<close>

record runtime =
  uuidv4 :: string
  JSON_stringify :: "jsval \<Rightarrow> string"
  Number_toString :: "jsnum \<Rightarrow> string"

text \<open>
  The method call \<open>v.toString()\<close>. It throws on \<open>null\<close> and \<open>undefined\<close>, and on an object
  whose own \<open>toString\<close> property shadows the inherited method (a data value is not callable).
  An array joins its elements with commas, where \<open>null\<close> and \<open>undefined\<close> elements render as
  the empty string and an object element is converted by its \<open>toString\<close> method.
\<close>

fun toString_method :: "(jsnum \<Rightarrow> string) \<Rightarrow> jsval \<Rightarrow> error + string"
  and join_elements :: "(jsnum \<Rightarrow> string) \<Rightarrow> jsval list \<Rightarrow> error + string" where
  "toString_method nts JUndefined = Inl TypeError"
| "toString_method nts JNull = Inl TypeError"
| "toString_method nts (JBool b) = Inr (if b then ''true'' else ''false'')"
| "toString_method nts (JNum n) = Inr (nts n)"
| "toString_method nts (JStr s) = Inr s"
| "toString_method nts (JArr xs) = join_elements nts xs"
| "toString_method nts (JObj kvs) =
     (case map_of kvs ''toString'' of
        None \<Rightarrow> Inr ''[object Object]''
      | Some f \<Rightarrow> Inl TypeError)"
| "join_elements nts [] = Inr []"
| "join_elements nts (x # xs) =
     (case (if x = JUndefined \<or> x = JNull then Inr [] else toString_method nts x) of
        Inl e \<Rightarrow> Inl e
      | Inr s \<Rightarrow>
          (if xs = [] then Inr s
           else (case join_elements nts xs of
                   Inl e \<Rightarrow> Inl e
                 | Inr r \<Rightarrow> Inr (s @ '','' @ r))))"

section \<open>The plugin descriptor\<close>

record ParameterConfig =
  param_name :: string
  param_type :: string
  param_description :: string
  param_required :: bool
  param_defaultValue :: "jsval option"

record ToolConfig =
  tool_name :: string
  tool_description :: string
  tool_parameters :: "ParameterConfig list"
  tool_implementation :: string
  tool_returnType :: string

datatype resource_type = Text | Binary | Json

record ResourceConfig =
  res_name :: string
  res_type :: resource_type
  res_content :: string
  res_isEmbedded :: bool

record PromptConfig =
  prompt_name :: string
  prompt_content :: string
  prompt_variables :: "string list"

datatype isolation_level = Process | Container | Vm

record ResourceLimits =
  memory :: nat
  cpu :: nat
  timeLimit :: nat

record TEEConfig =
  isolationLevel :: isolation_level
  resourceLimits :: ResourceLimits
  networkAccess :: bool
  fileSystemAccess :: bool

datatype agent_type = Llm | Sequential | Parallel | Loop

datatype build_target = Wasm | Go

text \<open>
  The fields \<open>agent_name\<close> and \<open>description\<close> are declared as strings, but the converter copies
  them from the untyped input without a check, so they hold whatever value the input had.
\<close>

record AgentPluginConfig =
  agent_id :: string
  agent_name :: jsval
  agentType :: agent_type
  description :: jsval
  version :: string
  facts_url :: string
  private_facts_url :: "string option"
  adaptive_router_url :: "string option"
  ttl :: nat
  signature :: string
  buildTarget :: "build_target option"
  tools :: "ToolConfig list"
  resources :: "ResourceConfig list"
  prompts :: "PromptConfig list"
  pythonDependencies :: "string list"
  useChromemGo :: bool
  subAgentCapabilities :: bool
  trustedExecutionEnvironment :: TEEConfig

section \<open>The converter\<close>

subsection \<open>The fixed catalog of built-in tools\<close>

definition chat_tool :: ToolConfig where
  "chat_tool =
     \<lparr>tool_name = ''chat'',
      tool_description = ''Chat with the user'',
      tool_parameters =
        [\<lparr>param_name = ''input'', param_type = ''string'',
          param_description = ''The user input'', param_required = True,
          param_defaultValue = None\<rparr>],
      tool_implementation = ''return { message: input }'',
      tool_returnType = ''object''\<rparr>"

definition automate_tool :: ToolConfig where
  \<open>automate_tool =
     \<lparr>tool_name = ''automate'',
      tool_description = ''Automate a task'',
      tool_parameters =
        [\<lparr>param_name = ''task'', param_type = ''string'',
          param_description = ''The task to automate'', param_required = True,
          param_defaultValue = None\<rparr>],
      tool_implementation = ''return { success: true, taskId: "task-123" }'',
      tool_returnType = ''object''\<rparr>\<close>

definition analyze_tool :: ToolConfig where
  \<open>analyze_tool =
     \<lparr>tool_name = ''analyze'',
      tool_description = ''Analyze data'',
      tool_parameters =
        [\<lparr>param_name = ''data'', param_type = ''string'',
          param_description = ''The data to analyze'', param_required = True,
          param_defaultValue = None\<rparr>],
      tool_implementation = ''return { insights: ["Insight 1", "Insight 2"] }'',
      tool_returnType = ''object''\<rparr>\<close>

subsection \<open>The steps that extend the configuration\<close>

text \<open>\<open>(agentConfig.tools ||= []).push(t)\<close>; the array is never absent in the model.\<close>

definition push_tool :: "ToolConfig \<Rightarrow> AgentPluginConfig \<Rightarrow> AgentPluginConfig" where
  "push_tool t agentConfig = agentConfig\<lparr>tools := tools agentConfig @ [t]\<rparr>"

definition push_resource :: "ResourceConfig \<Rightarrow> AgentPluginConfig \<Rightarrow> AgentPluginConfig" where
  "push_resource r agentConfig = agentConfig\<lparr>resources := resources agentConfig @ [r]\<rparr>"

text \<open>Lines 282-333: features as tools.\<close>

definition add_feature_tools :: "jsval \<Rightarrow> AgentPluginConfig \<Rightarrow> AgentPluginConfig" where
  "add_feature_tools agentFeatures agentConfig =
     (if truthy agentFeatures then
        (let c1 = (if truthy (get_prop agentFeatures ''chat'')
                   then push_tool chat_tool agentConfig else agentConfig);
             c2 = (if truthy (get_prop agentFeatures ''automation'')
                   then push_tool automate_tool c1 else c1);
             c3 = (if truthy (get_prop agentFeatures ''analytics'')
                   then push_tool analyze_tool c2 else c2)
         in c3)
      else agentConfig)"

text \<open>Lines 340-345: the resource pushed for an enabled server, named by its index.\<close>

definition mcp_server_name :: "nat \<Rightarrow> string" where
  "mcp_server_name index = ''mcp_server_'' @ index_toString index"

definition mcp_resource :: "runtime \<Rightarrow> nat \<Rightarrow> jsval \<Rightarrow> ResourceConfig" where
  "mcp_resource rt index server =
     \<lparr>res_name = mcp_server_name index,
      res_type = Json,
      res_content = JSON_stringify rt server,
      res_isEmbedded = True\<rparr>"

text \<open>
  Lines 338-347: the body of \<open>mcpServers.forEach((server, index) => ...)\<close>, element by
  element. Reading \<open>enabled\<close> from a \<open>null\<close> or \<open>undefined\<close> element throws.
\<close>

fun forEach_server ::
  "runtime \<Rightarrow> jsval list \<Rightarrow> nat \<Rightarrow> AgentPluginConfig \<Rightarrow> error + AgentPluginConfig" where
  "forEach_server rt [] index agentConfig = Inr agentConfig"
| "forEach_server rt (server # rest) index agentConfig =
     (if server = JNull \<or> server = JUndefined then Inl TypeError
      else if truthy (get_prop server ''enabled'')
      then forEach_server rt rest (Suc index)
             (push_resource (mcp_resource rt index server) agentConfig)
      else forEach_server rt rest (Suc index) agentConfig)"

text \<open>
  Lines 336-348. A truthy \<open>mcpServers\<close> that is not an array has no callable \<open>forEach\<close>, so the
  call throws.
\<close>

definition add_mcp_servers ::
  "runtime \<Rightarrow> jsval \<Rightarrow> AgentPluginConfig \<Rightarrow> error + AgentPluginConfig" where
  "add_mcp_servers rt agentSettings agentConfig =
     (if truthy agentSettings \<and> truthy (get_prop agentSettings ''mcpServers'') then
        (case get_prop agentSettings ''mcpServers'' of
           JArr mcpServers \<Rightarrow> forEach_server rt mcpServers 0 agentConfig
         | _ \<Rightarrow> Inl TypeError)
      else Inr agentConfig)"

text \<open>Lines 351-358: the creativity setting, when it is not \<open>undefined\<close>.\<close>

definition creativity_resource :: "string \<Rightarrow> ResourceConfig" where
  "creativity_resource s =
     \<lparr>res_name = ''creativity_parameter'', res_type = Text, res_content = s,
      res_isEmbedded = True\<rparr>"

definition add_creativity ::
  "runtime \<Rightarrow> jsval \<Rightarrow> AgentPluginConfig \<Rightarrow> error + AgentPluginConfig" where
  "add_creativity rt agentSettings agentConfig =
     (if truthy agentSettings \<and> get_prop agentSettings ''creativity'' \<noteq> JUndefined then
        (case toString_method (Number_toString rt) (get_prop agentSettings ''creativity'') of
           Inl e \<Rightarrow> Inl e
         | Inr s \<Rightarrow> Inr (push_resource (creativity_resource s) agentConfig))
      else Inr agentConfig)"

text \<open>Lines 361-368: the API keys, when the value is truthy.\<close>

definition api_keys_resource :: "runtime \<Rightarrow> jsval \<Rightarrow> ResourceConfig" where
  "api_keys_resource rt agentApiKeys =
     \<lparr>res_name = ''api_keys'', res_type = Json,
      res_content = JSON_stringify rt agentApiKeys, res_isEmbedded = True\<rparr>"

definition add_api_keys :: "runtime \<Rightarrow> jsval \<Rightarrow> AgentPluginConfig \<Rightarrow> AgentPluginConfig" where
  "add_api_keys rt agentApiKeys agentConfig =
     (if truthy agentApiKeys
      then push_resource (api_keys_resource rt agentApiKeys) agentConfig
      else agentConfig)"

subsection \<open>The basic configuration\<close>

text \<open>
  Line 256: \<open>existingAgentName || `urn:agent:agentify:${agentName.toLowerCase().replace(/\s+/g, '-')}`\<close>.
  The right operand is evaluated only when the left one is falsy; there \<open>agentName\<close> is truthy,
  and a truthy value that is not a string has no callable \<open>toLowerCase\<close>.
\<close>

definition make_agent_name :: "jsval \<Rightarrow> jsval \<Rightarrow> error + jsval" where
  "make_agent_name existingAgentName agentName =
     (if truthy existingAgentName then Inr existingAgentName
      else (case agentName of
              JStr s \<Rightarrow> Inr (JStr (''urn:agent:agentify:'' @ replace_whitespace (toLowerCase s)))
            | _ \<Rightarrow> Inl TypeError))"

text \<open>
  Lines 252-279. In line 258, \<open>agentInstructions || `${agentName} is a helpful AI assistant.`\<close>,
  the left operand has passed the check of line 235, so the template is never evaluated
  and the description is \<open>agentInstructions\<close>.
\<close>

definition basic_config :: "string \<Rightarrow> jsval \<Rightarrow> jsval \<Rightarrow> AgentPluginConfig" where
  "basic_config agentId name agentInstructions =
     \<lparr>agent_id = agentId,
      agent_name = name,
      agentType = Llm,
      description = agentInstructions,
      version = ''1.0.0'',
      facts_url = ''https://agentify.example.com/agents/'' @ agentId,
      private_facts_url = None,
      adaptive_router_url = None,
      ttl = 3600,
      signature = ''placeholder-signature'',
      buildTarget = None,
      tools = [],
      resources = [],
      prompts = [],
      pythonDependencies = [],
      useChromemGo = True,
      subAgentCapabilities = False,
      trustedExecutionEnvironment =
        \<lparr>isolationLevel = Process,
         resourceLimits = \<lparr>memory = 512, cpu = 1, timeLimit = 60\<rparr>,
         networkAccess = True,
         fileSystemAccess = False\<rparr>\<rparr>"

subsection \<open>convertUIConfigToPluginConfig\<close>

text \<open>
  Lines 220-378. A \<open>throw\<close> is the result \<open>Inl\<close>, the returned descriptor is \<open>Inr\<close>. The two
  calls of \<open>console.log\<close> do not change the result and are left out.
\<close>

definition convertUIConfigToPluginConfig :: "runtime \<Rightarrow> jsval \<Rightarrow> error + AgentPluginConfig" where
  "convertUIConfigToPluginConfig rt uiConfig =
     (if \<not> truthy uiConfig \<or> typeof uiConfig \<noteq> ''object''
      then Inl (Error ''Invalid UI config'')
      else
        (let agentName = get_prop uiConfig ''name'';
             existingAgentName = get_prop uiConfig ''agent_name'';
             agentPersonality = get_prop uiConfig ''personality'';
             agentInstructions = get_prop uiConfig ''instructions'';
             agentFeatures = get_prop uiConfig ''features'';
             agentApiKeys = get_prop uiConfig ''apiKeys'';
             agentSettings = get_prop uiConfig ''settings''
         in if \<not> truthy agentName \<or> \<not> truthy agentPersonality
               \<or> \<not> truthy agentInstructions \<or> \<not> truthy agentSettings
            then Inl (Error ''Missing required UI config fields'')
            else
              (let agentId = uuidv4 rt
               in case make_agent_name existingAgentName agentName of
                    Inl e \<Rightarrow> Inl e
                  | Inr name \<Rightarrow>
                      (let agentConfig = basic_config agentId name agentInstructions;
                           agentConfig = add_feature_tools agentFeatures agentConfig
                       in case add_mcp_servers rt agentSettings agentConfig of
                            Inl e \<Rightarrow> Inl e
                          | Inr agentConfig \<Rightarrow>
                              (case add_creativity rt agentSettings agentConfig of
                                 Inl e \<Rightarrow> Inl e
                               | Inr agentConfig \<Rightarrow>
                                   Inr (add_api_keys rt agentApiKeys agentConfig))))))"

section \<open>Creating the service: the toolchain check\<close>

text \<open>
  Lines 196-215 of \<open>createAgentCompilerService\<close>. The result of \<open>compiler.checkToolchain()\<close>
  is an object with the flags \<open>go\<close>, \<open>python\<close> and \<open>gcc\<close>; \<open>NODE_ENV\<close> is the environment variable,
  possibly unset; the outcome of \<open>compiler.installToolchain()\<close> is \<open>Inl\<close> when it throws. The
  function's observable steps are collected in order.
\<close>

record toolchain =
  go :: bool
  python :: bool
  gcc :: bool

datatype event =
    Warn_missing_components bool bool bool
  | Log_attempting_install
  | Call_installToolchain
  | Error_failed_install
  | Log_falling_back

text \<open>
  The call \<open>await compiler.installToolchain()\<close> and the \<open>try ... catch\<close> around it (lines
  208-213): the handler logs twice and swallows the error.
\<close>

definition call_installToolchain :: "error + unit \<Rightarrow> event list \<times> (error + unit)" where
  "call_installToolchain install_result = ([Call_installToolchain], install_result)"

definition try_install :: "error + unit \<Rightarrow> event list \<times> (error + unit)" where
  "try_install install_result =
     (case call_installToolchain install_result of
        (evs, Inr u) \<Rightarrow> (evs, Inr ())
      | (evs, Inl e) \<Rightarrow> (evs @ [Error_failed_install, Log_falling_back], Inr ()))"

text \<open>
  From the toolchain check to the \<open>return\<close> of the service object: \<open>Inr ()\<close> says that the
  function reaches its \<open>return\<close>, \<open>Inl\<close> that an error escapes.
\<close>

definition check_and_install ::
  "toolchain \<Rightarrow> string option \<Rightarrow> error + unit \<Rightarrow> event list \<times> (error + unit)" where
  "check_and_install tc NODE_ENV install_result =
     (if \<not> go tc \<or> \<not> python tc then
        (let trace = [Warn_missing_components (go tc) (python tc) (gcc tc)]
         in if NODE_ENV \<noteq> Some ''production'' then
              (case try_install install_result of
                 (evs, outcome) \<Rightarrow> (trace @ [Log_attempting_install] @ evs, outcome))
            else (trace, Inr ()))
      else ([], Inr ()))"

text \<open>Whether a run went through the branch of lines 198-215: it starts with the warning.\<close>

fun enters_missing_branch :: "event list \<Rightarrow> bool" where
  "enters_missing_branch (Warn_missing_components g p c # evs) = True"
| "enters_missing_branch evs = False"

section \<open>The specification's view of the converter\<close>

text \<open>
  The definitions of this section follow the words of the specification; the theorems below
  compare them with the converter.
\<close>

text \<open>
  The fixed catalog of feature flags, in the order chat, automation, analytics, and its
  order-preserving expansion: one tool for each flag that the features object enables.
\<close>

definition spec_feature_catalog :: "(string \<times> ToolConfig) list" where
  "spec_feature_catalog =
     [(''chat'', chat_tool), (''automation'', automate_tool), (''analytics'', analyze_tool)]"

definition spec_expand_features :: "jsval \<Rightarrow> ToolConfig list" where
  "spec_expand_features features =
     map snd (filter (\<lambda>(flag, t). truthy (get_prop features flag)) spec_feature_catalog)"

text \<open>The enabled secondary-service endpoints of the settings, each with its index.\<close>

definition spec_enabled_servers :: "jsval \<Rightarrow> (nat \<times> jsval) list" where
  "spec_enabled_servers settings =
     (case get_prop settings ''mcpServers'' of
        JArr servers \<Rightarrow>
          filter (\<lambda>(index, server). truthy (get_prop server ''enabled''))
            (zip [0..<length servers] servers)
      | _ \<Rightarrow> [])"

text \<open>The creativity setting as a text resource, when it is defined.\<close>

definition spec_creativity_resources :: "runtime \<Rightarrow> jsval \<Rightarrow> ResourceConfig list" where
  "spec_creativity_resources rt settings =
     (if get_prop settings ''creativity'' = JUndefined then []
      else (case toString_method (Number_toString rt) (get_prop settings ''creativity'') of
              Inr s \<Rightarrow> [creativity_resource s]
            | Inl e \<Rightarrow> []))"

text \<open>
  The resources of the auxiliary settings: one per enabled endpoint, then the creativity
  setting, then the supplied credentials.
\<close>

definition spec_resources :: "runtime \<Rightarrow> jsval \<Rightarrow> jsval \<Rightarrow> ResourceConfig list" where
  "spec_resources rt settings apiKeys =
     map (\<lambda>(index, server). mcp_resource rt index server) (spec_enabled_servers settings)
     @ spec_creativity_resources rt settings
     @ (if truthy apiKeys then [api_keys_resource rt apiKeys] else [])"

subsection \<open>A descriptor rendered back into raw-input form\<close>

text \<open>Reading the decimal rendering of an index back.\<close>

definition digit_value :: "char \<Rightarrow> nat" where
  "digit_value c = of_char c - 48"

definition decimal_value :: "string \<Rightarrow> nat" where
  "decimal_value s = foldl (\<lambda>acc c. 10 * acc + digit_value c) 0 s"

text \<open>
  Modelled from the spec: \<open>asRawInput\<close>, which renders a descriptor back into raw-input form.
  The source has no such function. The rendering writes a descriptor in the keys of the raw
  input (interface \<open>UIConfig\<close>, lines 91-116):
  \<^item> \<open>agent_name\<close> is the descriptor's alias and \<open>instructions\<close> its description; the
    descriptor keeps neither the display name nor the personality text, and the rendering
    fills \<open>name\<close> with the alias and \<open>personality\<close> with the description;
  \<^item> \<open>features\<close> has the flag of every catalog tool that the descriptor carries;
  \<^item> \<open>settings.mcpServers\<close> has, at the index that the name of a resource \<open>mcp_server_i\<close>
    gives, the server parsed from the resource's text, and a disabled server at every other
    index below; \<open>settings.creativity\<close> and \<open>apiKeys\<close> are parsed from the resources
    \<open>creativity_parameter\<close> and \<open>api_keys\<close>, when the descriptor has them.
  The parameter \<open>parse\<close> is \<open>JSON.parse\<close>.
\<close>

definition rendered_features :: "AgentPluginConfig \<Rightarrow> jsval" where
  "rendered_features d =
     JObj [(''chat'', JBool (''chat'' \<in> set (map tool_name (tools d)))),
           (''automation'', JBool (''automate'' \<in> set (map tool_name (tools d)))),
           (''analytics'', JBool (''analyze'' \<in> set (map tool_name (tools d))))]"

definition mcp_entries :: "ResourceConfig list \<Rightarrow> (nat \<times> string) list" where
  "mcp_entries rs =
     map (\<lambda>r. (decimal_value (drop 11 (res_name r)), res_content r))
       (filter (\<lambda>r. take 11 (res_name r) = ''mcp_server_'') rs)"

definition rendered_servers :: "(string \<Rightarrow> jsval) \<Rightarrow> ResourceConfig list \<Rightarrow> jsval list" where
  "rendered_servers parse rs =
     map (\<lambda>index. case map_of (mcp_entries rs) index of
                     Some text \<Rightarrow> parse text
                   | None \<Rightarrow> JObj [(''enabled'', JBool False)])
       [0..<fold max (map (\<lambda>(index, text). Suc index) (mcp_entries rs)) 0]"

definition rendered_settings :: "(string \<Rightarrow> jsval) \<Rightarrow> ResourceConfig list \<Rightarrow> jsval" where
  "rendered_settings parse rs =
     JObj ([(''mcpServers'', JArr (rendered_servers parse rs))]
           @ (case find (\<lambda>r. res_name r = ''creativity_parameter'') rs of
                None \<Rightarrow> []
              | Some r \<Rightarrow> [(''creativity'', parse (res_content r))]))"

definition asRawInput :: "(string \<Rightarrow> jsval) \<Rightarrow> AgentPluginConfig \<Rightarrow> jsval" where
  "asRawInput parse d =
     JObj ([(''name'', agent_name d),
            (''agent_name'', agent_name d),
            (''personality'', description d),
            (''instructions'', description d),
            (''features'', rendered_features d),
            (''settings'', rendered_settings parse (resources d))]
           @ (case find (\<lambda>r. res_name r = ''api_keys'') (resources d) of
                None \<Rightarrow> []
              | Some r \<Rightarrow> [(''apiKeys'', parse (res_content r))]))"

text \<open>A descriptor with the two identifier fields taken from another identifier.\<close>

definition with_identifier :: "string \<Rightarrow> AgentPluginConfig \<Rightarrow> AgentPluginConfig" where
  "with_identifier ident d =
     d\<lparr>agent_id := ident, facts_url := ''https://agentify.example.com/agents/'' @ ident\<rparr>"

section \<open>Concrete inputs\<close>

text \<open>
  A runtime for evaluating the converter on concrete inputs. Its serialisers are stand-ins
  that return one fixed text; the general theorems hold for every runtime.
\<close>

definition sample_stringify :: "jsval \<Rightarrow> string" where
  "sample_stringify v = ''{}''"

definition sample_number_toString :: "jsnum \<Rightarrow> string" where
  "sample_number_toString n = ''0.5''"

definition sample_runtime :: runtime where
  "sample_runtime =
     \<lparr>uuidv4 = ''3f2b8c1e-0000-4000-8000-000000000001'',
      JSON_stringify = sample_stringify,
      Number_toString = sample_number_toString\<rparr>"

text \<open>The end-to-end scenarios A and B of the specification.\<close>

definition scenario_A :: jsval where
  "scenario_A =
     JObj [(''name'', JStr ''Starbucks Helper''),
           (''personality'', JStr ''friendly''),
           (''instructions'', JStr ''help customers''),
           (''settings'', JObj [(''mcpServers'', JArr [])]),
           (''features'', JObj [(''chat'', JBool True)])]"

definition scenario_B :: jsval where
  "scenario_B =
     JObj [(''name'', JStr ''Starbucks Helper''),
           (''personality'', JStr ''friendly''),
           (''instructions'', JStr ''help customers''),
           (''settings'', JObj [(''mcpServers'', JArr [])]),
           (''features'', JObj [(''chat'', JBool True), (''automation'', JBool True),
                               (''analytics'', JBool True)])]"

text \<open>Scenario A's descriptor under the sample runtime.\<close>

definition scenario_A_descriptor :: AgentPluginConfig where
  "scenario_A_descriptor =
     (basic_config ''3f2b8c1e-0000-4000-8000-000000000001''
        (JStr ''urn:agent:agentify:starbucks-helper'') (JStr ''help customers''))
     \<lparr>tools := [chat_tool]\<rparr>"

text \<open>Scenario B's descriptor under the sample runtime.\<close>

definition scenario_B_descriptor :: AgentPluginConfig where
  "scenario_B_descriptor =
     (basic_config ''3f2b8c1e-0000-4000-8000-000000000001''
        (JStr ''urn:agent:agentify:starbucks-helper'') (JStr ''help customers''))
     \<lparr>tools := [chat_tool, automate_tool, analyze_tool]\<rparr>"

text \<open>Scenario A without the \<open>features\<close> key.\<close>

definition input_without_features :: jsval where
  "input_without_features =
     JObj [(''name'', JStr ''Starbucks Helper''),
           (''personality'', JStr ''friendly''),
           (''instructions'', JStr ''help customers''),
           (''settings'', JObj [(''mcpServers'', JArr [])])]"

text \<open>Scenario A without the \<open>settings\<close> key.\<close>

definition input_without_settings :: jsval where
  "input_without_settings =
     JObj [(''name'', JStr ''Starbucks Helper''),
           (''personality'', JStr ''friendly''),
           (''instructions'', JStr ''help customers''),
           (''features'', JObj [(''chat'', JBool True)])]"

text \<open>Scenario A with \<open>tools\<close> and \<open>resources\<close> arrays of its own.\<close>

definition scenario_A_properties :: "(string \<times> jsval) list" where
  "scenario_A_properties =
     [(''name'', JStr ''Starbucks Helper''),
      (''personality'', JStr ''friendly''),
      (''instructions'', JStr ''help customers''),
      (''settings'', JObj [(''mcpServers'', JArr [])]),
      (''features'', JObj [(''chat'', JBool True)])]"

definition scenario_A_extra_properties :: "(string \<times> jsval) list" where
  "scenario_A_extra_properties =
     [(''tools'', JArr [JObj [(''name'', JStr ''shell''), (''description'', JStr ''Run a command''),
                              (''parameters'', JArr []),
                              (''implementation'', JStr ''return run(input)''),
                              (''returnType'', JStr ''object'')]]),
      (''resources'', JArr [JObj [(''name'', JStr ''notes''), (''type'', JStr ''text''),
                                  (''content'', JStr ''hello''), (''isEmbedded'', JBool True)]])]
     @ scenario_A_properties"

section \<open>A runtime with serialisers\<close>

text \<open>
  \<open>JSON.stringify\<close> on the values of this theory. A string is quoted with the escapes of
  the standard; an array element that is \<open>undefined\<close> is written \<open>null\<close>; an object writes
  its properties whose value is not \<open>undefined\<close>, array-index keys first in ascending order,
  then the other keys in the order of the property list; \<open>NaN\<close> and the infinities are
  written \<open>null\<close>, a finite number as the parameter renders it.
\<close>

definition backslash :: char where "backslash = CHR 0x5C"
definition double_quote :: char where "double_quote = CHR 0x22"

definition hex_digit :: "nat \<Rightarrow> char" where
  "hex_digit d = (if d < 10 then char_of (48 + d) else char_of (87 + d))"

definition quote_char :: "char \<Rightarrow> string" where
  "quote_char c =
     (let n = (of_char c :: nat)
      in if n = 8 then [backslash, CHR ''b'']
         else if n = 9 then [backslash, CHR ''t'']
         else if n = 10 then [backslash, CHR ''n'']
         else if n = 12 then [backslash, CHR ''f'']
         else if n = 13 then [backslash, CHR ''r'']
         else if n = 34 then [backslash, double_quote]
         else if n = 92 then [backslash, backslash]
         else if n < 32 then [backslash, CHR ''u'', CHR ''0'', CHR ''0'',
                              hex_digit (n div 16), hex_digit (n mod 16)]
         else [c])"

definition quote_json :: "string \<Rightarrow> string" where
  "quote_json s = double_quote # concat (map quote_char s) @ [double_quote]"

fun join_commas :: "string list \<Rightarrow> string" where
  "join_commas [] = []"
| "join_commas [t] = t"
| "join_commas (t # ts) = t @ '','' @ join_commas ts"

fun first_bindings :: "string list \<Rightarrow> (string \<times> 'a) list \<Rightarrow> (string \<times> 'a) list" where
  "first_bindings seen [] = []"
| "first_bindings seen ((k, v) # kvs) =
     (if k \<in> set seen then first_bindings seen kvs else (k, v) # first_bindings (k # seen) kvs)"

definition is_digit :: "char \<Rightarrow> bool" where
  "is_digit c = (48 \<le> (of_char c :: nat) \<and> (of_char c :: nat) \<le> 57)"

definition index_value :: "string \<Rightarrow> int" where
  "index_value k = foldl (\<lambda>acc c. 10 * acc + (of_char c - 48)) 0 k"

definition is_array_index :: "string \<Rightarrow> bool" where
  "is_array_index k =
     (k \<noteq> [] \<and> list_all is_digit k \<and> (k = ''0'' \<or> hd k \<noteq> CHR ''0'')
      \<and> index_value k < 4294967295)"

definition ordered_properties :: "(string \<times> 'a) list \<Rightarrow> (string \<times> 'a) list" where
  "ordered_properties kvs =
     (let ps = first_bindings [] kvs
      in sort_key (\<lambda>(k, v). index_value k) (filter (\<lambda>(k, v). is_array_index k) ps)
         @ filter (\<lambda>(k, v). \<not> is_array_index k) ps)"

fun member_texts :: "(string \<times> string option) list \<Rightarrow> string list" where
  "member_texts [] = []"
| "member_texts ((k, None) # ps) = member_texts ps"
| "member_texts ((k, Some t) # ps) = (quote_json k @ '':'' @ t) # member_texts ps"

fun json_value :: "(jsnum \<Rightarrow> string) \<Rightarrow> jsval \<Rightarrow> string option"
  and json_elements :: "(jsnum \<Rightarrow> string) \<Rightarrow> jsval list \<Rightarrow> string list"
  and json_members :: "(jsnum \<Rightarrow> string) \<Rightarrow> (string \<times> jsval) list \<Rightarrow> (string \<times> string option) list" where
  "json_value nts JUndefined = None"
| "json_value nts JNull = Some ''null''"
| "json_value nts (JBool b) = Some (if b then ''true'' else ''false'')"
| "json_value nts (JNum NaN) = Some ''null''"
| "json_value nts (JNum (Infinity s)) = Some ''null''"
| "json_value nts (JNum (Finite s m e)) = Some (nts (Finite s m e))"
| "json_value nts (JStr s) = Some (quote_json s)"
| "json_value nts (JArr xs) = Some (''['' @ join_commas (json_elements nts xs) @ '']'')"
| "json_value nts (JObj kvs) =
     Some (''{'' @ join_commas (member_texts (ordered_properties (json_members nts kvs))) @ ''}'')"
| "json_elements nts [] = []"
| "json_elements nts (x # xs) =
     (case json_value nts x of None \<Rightarrow> ''null'' | Some t \<Rightarrow> t) # json_elements nts xs"
| "json_members nts [] = []"
| "json_members nts ((k, v) # kvs) = (k, json_value nts v) # json_members nts kvs"

text \<open>
  At top level \<open>undefined\<close> has no text; the converter serialises truthy values only, and
  the empty text stands for it here.
\<close>

definition json_stringify :: "(jsnum \<Rightarrow> string) \<Rightarrow> jsval \<Rightarrow> string" where
  "json_stringify nts v = (case json_value nts v of None \<Rightarrow> [] | Some t \<Rightarrow> t)"

text \<open>
  The exact decimal expansion of a number. It is \<open>Number.prototype.toString\<close> on the doubles
  of magnitude from \<open>1e-6\<close> up to \<open>1e21\<close> whose expansion has at most 15 significant digits.
\<close>

definition strip_trailing_zeros :: "string \<Rightarrow> string" where
  "strip_trailing_zeros s = rev (dropWhile (\<lambda>c. c = CHR ''0'') (rev s))"

definition fraction_digits :: "nat \<Rightarrow> nat \<Rightarrow> string" where
  "fraction_digits k f =
     strip_trailing_zeros
       (replicate (k - length (index_toString f)) CHR ''0'' @ index_toString f)"

fun number_text :: "jsnum \<Rightarrow> string" where
  "number_text NaN = ''NaN''"
| "number_text (Infinity negative) = (if negative then ''-Infinity'' else ''Infinity'')"
| "number_text (Finite negative m e) =
     (if m = 0 then ''0''
      else (if negative then ''-'' else [])
           @ (if 0 \<le> e then index_toString (m * 2 ^ nat e)
              else (let k = nat (- e); n = m * 5 ^ k
                    in if n mod 10 ^ k = 0 then index_toString (n div 10 ^ k)
                       else index_toString (n div 10 ^ k) @ ''.''
                            @ fraction_digits k (n mod 10 ^ k))))"

text \<open>
  The runtime with these serialisers, and the same runtime after the identifier source has
  yielded another identifier.
\<close>

definition json_runtime :: runtime where
  "json_runtime =
     \<lparr>uuidv4 = ''3f2b8c1e-0000-4000-8000-000000000001'',
      JSON_stringify = json_stringify number_text,
      Number_toString = number_text\<rparr>"

definition second_identifier :: string where
  "second_identifier = ''9c1d4e7a-0000-4000-8000-000000000002''"

definition json_runtime_fresh :: runtime where
  "json_runtime_fresh = json_runtime\<lparr>uuidv4 := second_identifier\<rparr>"

text \<open>
  An input with three secondary services, the second one disabled, a creativity of one half
  and one credential; and its descriptor under this runtime.
\<close>

definition sample_server_a :: jsval where
  "sample_server_a =
     JObj [(''url'', JStr ''http://a''), (''name'', JStr ''a''), (''enabled'', JBool True)]"

definition sample_server_b :: jsval where
  "sample_server_b =
     JObj [(''url'', JStr ''http://b''), (''name'', JStr ''b''), (''enabled'', JBool False)]"

definition sample_server_c :: jsval where
  "sample_server_c =
     JObj [(''url'', JStr ''http://c''), (''name'', JStr ''c''), (''enabled'', JBool True)]"

definition sample_api_keys :: jsval where
  "sample_api_keys = JObj [(''openai'', JStr ''sk-1'')]"

definition sample_creativity :: jsval where
  "sample_creativity = JNum (Finite False 1 (- 1))"

definition input_with_services :: jsval where
  "input_with_services =
     JObj [(''name'', JStr ''Starbucks Helper''),
           (''personality'', JStr ''friendly''),
           (''instructions'', JStr ''help customers''),
           (''apiKeys'', sample_api_keys),
           (''settings'',
              JObj [(''mcpServers'', JArr [sample_server_a, sample_server_b, sample_server_c]),
                    (''creativity'', sample_creativity)]),
           (''features'', JObj [(''chat'', JBool True)])]"

definition input_with_services_descriptor :: AgentPluginConfig where
  \<open>input_with_services_descriptor =
     (basic_config ''3f2b8c1e-0000-4000-8000-000000000001''
        (JStr ''urn:agent:agentify:starbucks-helper'') (JStr ''help customers''))
     \<lparr>tools := [chat_tool],
      resources :=
        [\<lparr>res_name = ''mcp_server_0'', res_type = Json,
          res_content = ''{"url":"http://a","name":"a","enabled":true}'',
          res_isEmbedded = True\<rparr>,
         \<lparr>res_name = ''mcp_server_2'', res_type = Json,
          res_content = ''{"url":"http://c","name":"c","enabled":true}'',
          res_isEmbedded = True\<rparr>,
         \<lparr>res_name = ''creativity_parameter'', res_type = Text,
          res_content = ''0.5'', res_isEmbedded = True\<rparr>,
         \<lparr>res_name = ''api_keys'', res_type = Json,
          res_content = ''{"openai":"sk-1"}'', res_isEmbedded = True\<rparr>]\<rparr>\<close>

text \<open>
  \<open>JSON.parse\<close> on the four texts that this input is serialised to; no other text is
  parsed here, and \<open>null\<close> stands for its value.
\<close>

definition sample_parse :: "string \<Rightarrow> jsval" where
  \<open>sample_parse text =
     (case map_of
        [(''{"url":"http://a","name":"a","enabled":true}'', sample_server_a),
         (''{"url":"http://c","name":"c","enabled":true}'', sample_server_c),
         (''{"openai":"sk-1"}'', sample_api_keys),
         (''0.5'', sample_creativity)] text of
        Some v \<Rightarrow> v
      | None \<Rightarrow> JNull)\<close>

section \<open>Properties of the steps\<close>

lemma get_prop_falsy: "\<not> truthy v \<Longrightarrow> get_prop v k = JUndefined"
  by (cases v) auto

lemma add_feature_tools_eq:
  "add_feature_tools f c = c\<lparr>tools := tools c @ spec_expand_features f\<rparr>"
  by (simp add: add_feature_tools_def spec_expand_features_def spec_feature_catalog_def
      push_tool_def Let_def get_prop_falsy)

lemma forEach_server_eq:
  "forEach_server rt xs i c = Inr c' \<Longrightarrow>
   c' = c\<lparr>resources := resources c @
          map (\<lambda>(j, s). mcp_resource rt j s)
            (filter (\<lambda>(j, s). truthy (get_prop s ''enabled'')) (zip [i..<i + length xs] xs))\<rparr>"
proof (induction xs arbitrary: i c)
  case Nil
  then show ?case by simp
next
  case (Cons x xs)
  have up: "[i..<i + length (x # xs)] = i # [Suc i..<Suc i + length xs]"
    by (simp add: upt_rec)
  show ?case
  proof (cases "truthy (get_prop x ''enabled'')")
    case True
    with Cons.prems
    have "forEach_server rt xs (Suc i) (push_resource (mcp_resource rt i x) c) = Inr c'"
      by (simp split: if_splits)
    from Cons.IH [OF this] True show ?thesis
      unfolding up by (simp add: push_resource_def)
  next
    case False
    with Cons.prems have "forEach_server rt xs (Suc i) c = Inr c'"
      by (simp split: if_splits)
    from Cons.IH [OF this] False show ?thesis
      unfolding up by simp
  qed
qed

lemma add_mcp_servers_eq:
  "add_mcp_servers rt settings c = Inr c' \<Longrightarrow>
   c' = c\<lparr>resources := resources c @
          map (\<lambda>(j, s). mcp_resource rt j s) (spec_enabled_servers settings)\<rparr>"
  unfolding add_mcp_servers_def spec_enabled_servers_def
  by (cases "get_prop settings ''mcpServers''")
     (auto split: if_splits dest: forEach_server_eq simp: get_prop_falsy)

lemma add_creativity_eq:
  "add_creativity rt settings c = Inr c' \<Longrightarrow>
   (get_prop settings ''creativity'' = JUndefined \<and> c' = c) \<or>
   (get_prop settings ''creativity'' \<noteq> JUndefined \<and>
    (\<exists>s. toString_method (Number_toString rt) (get_prop settings ''creativity'') = Inr s \<and>
         c' = c\<lparr>resources := resources c @ [creativity_resource s]\<rparr>))"
  unfolding add_creativity_def push_resource_def
  by (auto split: if_splits sum.splits simp: get_prop_falsy)

lemma add_api_keys_eq:
  "add_api_keys rt apiKeys c =
   c\<lparr>resources := resources c @ (if truthy apiKeys then [api_keys_resource rt apiKeys] else [])\<rparr>"
  by (simp add: add_api_keys_def push_resource_def)

text \<open>After the two validation errors, only a \<open>TypeError\<close> can be thrown.\<close>

lemma make_agent_name_error: "make_agent_name e n = Inl err \<Longrightarrow> err = TypeError"
  by (cases n) (auto simp: make_agent_name_def split: if_splits)

lemma forEach_server_error: "forEach_server rt xs i c = Inl err \<Longrightarrow> err = TypeError"
  by (induction xs arbitrary: i c) (auto split: if_splits)

lemma add_mcp_servers_error: "add_mcp_servers rt s c = Inl err \<Longrightarrow> err = TypeError"
  unfolding add_mcp_servers_def
  by (cases "get_prop s ''mcpServers''") (auto split: if_splits dest: forEach_server_error)

lemma toString_method_error:
  "toString_method nts v = Inl err \<Longrightarrow> err = TypeError"
  "join_elements nts vs = Inl err \<Longrightarrow> err = TypeError"
  by (induction nts v and nts vs rule: toString_method_join_elements.induct)
     (auto split: option.splits sum.splits if_splits)

lemma add_creativity_error: "add_creativity rt s c = Inl err \<Longrightarrow> err = TypeError"
  unfolding add_creativity_def
  by (auto split: if_splits sum.splits dest: toString_method_error)

section \<open>The shape of the converter's results\<close>

lemma convert_Inr_D:
  assumes "convertUIConfigToPluginConfig rt x = Inr d"
  shows "truthy x \<and> typeof x = ''object'' \<and>
         truthy (get_prop x ''name'') \<and> truthy (get_prop x ''personality'') \<and>
         truthy (get_prop x ''instructions'') \<and> truthy (get_prop x ''settings'') \<and>
         (\<exists>nm c1 c2.
            make_agent_name (get_prop x ''agent_name'') (get_prop x ''name'') = Inr nm \<and>
            add_mcp_servers rt (get_prop x ''settings'')
              (add_feature_tools (get_prop x ''features'')
                 (basic_config (uuidv4 rt) nm (get_prop x ''instructions''))) = Inr c1 \<and>
            add_creativity rt (get_prop x ''settings'') c1 = Inr c2 \<and>
            d = add_api_keys rt (get_prop x ''apiKeys'') c2)"
  using assms unfolding convertUIConfigToPluginConfig_def Let_def
  by (auto split: if_splits sum.splits)

lemma convert_Inl_D:
  assumes "convertUIConfigToPluginConfig rt x = Inl err"
  shows "err = Error ''Invalid UI config'' \<and> \<not> (truthy x \<and> typeof x = ''object'')
         \<or> err = Error ''Missing required UI config fields'' \<and> truthy x \<and> typeof x = ''object''
             \<and> (\<not> truthy (get_prop x ''name'') \<or> \<not> truthy (get_prop x ''personality'')
                  \<or> \<not> truthy (get_prop x ''instructions'') \<or> \<not> truthy (get_prop x ''settings''))
         \<or> err = TypeError \<and> truthy x \<and> typeof x = ''object''
             \<and> truthy (get_prop x ''name'') \<and> truthy (get_prop x ''personality'')
             \<and> truthy (get_prop x ''instructions'') \<and> truthy (get_prop x ''settings'')"
  using assms unfolding convertUIConfigToPluginConfig_def Let_def
  by (auto split: if_splits sum.splits
      dest: make_agent_name_error add_mcp_servers_error add_creativity_error)

lemma convert_shape:
  assumes "convertUIConfigToPluginConfig rt x = Inr d"
  shows "\<exists>nm. make_agent_name (get_prop x ''agent_name'') (get_prop x ''name'') = Inr nm \<and>
           d = (basic_config (uuidv4 rt) nm (get_prop x ''instructions''))
                 \<lparr>tools := spec_expand_features (get_prop x ''features''),
                  resources := spec_resources rt (get_prop x ''settings'') (get_prop x ''apiKeys'')\<rparr>"
proof -
  from convert_Inr_D [OF assms] obtain nm c1 c2 where
    nm: "make_agent_name (get_prop x ''agent_name'') (get_prop x ''name'') = Inr nm"
    and c1: "add_mcp_servers rt (get_prop x ''settings'')
              (add_feature_tools (get_prop x ''features'')
                 (basic_config (uuidv4 rt) nm (get_prop x ''instructions''))) = Inr c1"
    and c2: "add_creativity rt (get_prop x ''settings'') c1 = Inr c2"
    and d: "d = add_api_keys rt (get_prop x ''apiKeys'') c2"
    by blast
  let ?b = "basic_config (uuidv4 rt) nm (get_prop x ''instructions'')"
  have b: "tools ?b = []" "resources ?b = []"
    by (simp_all add: basic_config_def)
  have c1': "c1 = ?b\<lparr>tools := spec_expand_features (get_prop x ''features''),
                     resources := map (\<lambda>(j, s). mcp_resource rt j s)
                                    (spec_enabled_servers (get_prop x ''settings''))\<rparr>"
    using add_mcp_servers_eq [OF c1] b by (simp add: add_feature_tools_eq)
  have c2': "c2 = c1\<lparr>resources := resources c1 @
                      spec_creativity_resources rt (get_prop x ''settings'')\<rparr>"
    using add_creativity_eq [OF c2]
    by (auto simp: spec_creativity_resources_def)
  have "d = ?b\<lparr>tools := spec_expand_features (get_prop x ''features''),
               resources := spec_resources rt (get_prop x ''settings'') (get_prop x ''apiKeys'')\<rparr>"
    unfolding d add_api_keys_eq c2' c1' spec_resources_def by simp
  with nm show ?thesis by blast
qed

lemma convert_creativity_ok:
  assumes "convertUIConfigToPluginConfig rt x = Inr d"
    and "get_prop (get_prop x ''settings'') ''creativity'' \<noteq> JUndefined"
  shows "\<exists>s. toString_method (Number_toString rt)
               (get_prop (get_prop x ''settings'') ''creativity'') = Inr s"
  using convert_Inr_D [OF assms(1)] assms(2)
  by (auto dest!: add_creativity_eq)

lemma scenario_A_result:
  "convertUIConfigToPluginConfig sample_runtime scenario_A = Inr scenario_A_descriptor"
  by code_simp

section \<open>Validation of the raw input\<close>

text \<open>
  Claim C1. For every raw input in which the display name, the personality text, the
  instructions text or the settings object is absent (reading it yields \<open>undefined\<close>), the
  converter throws a validation error and returns no descriptor: \<open>Missing required UI
  config fields\<close> when the input is an object, \<open>Invalid UI config\<close> otherwise.
\<close>

theorem convert_rejects_missing_fields:
  assumes "get_prop uiConfig ''name'' = JUndefined
           \<or> get_prop uiConfig ''personality'' = JUndefined
           \<or> get_prop uiConfig ''instructions'' = JUndefined
           \<or> get_prop uiConfig ''settings'' = JUndefined"
  shows "convertUIConfigToPluginConfig rt uiConfig =
           Inl (Error (if truthy uiConfig \<and> typeof uiConfig = ''object''
                       then ''Missing required UI config fields'' else ''Invalid UI config''))"
  using assms unfolding convertUIConfigToPluginConfig_def Let_def by auto

text \<open>The claim at scenario A without its settings, and at a string in place of the object.\<close>

theorem convert_rejects_missing_fields_witness:
  "get_prop input_without_settings ''settings'' = JUndefined
   \<and> convertUIConfigToPluginConfig sample_runtime input_without_settings
       = Inl (Error ''Missing required UI config fields'')
   \<and> convertUIConfigToPluginConfig sample_runtime (JStr ''Starbucks Helper'')
       = Inl (Error ''Invalid UI config'')"
proof -
  have h: "get_prop input_without_settings ''settings'' = JUndefined"
    by (simp add: input_without_settings_def)
  have o: "truthy input_without_settings \<and> typeof input_without_settings = ''object''"
    by (simp add: input_without_settings_def)
  have 1: "convertUIConfigToPluginConfig sample_runtime input_without_settings
       = Inl (Error ''Missing required UI config fields'')"
    using convert_rejects_missing_fields [of input_without_settings sample_runtime] h o
    by simp
  have 2: "convertUIConfigToPluginConfig sample_runtime (JStr ''Starbucks Helper'')
       = Inl (Error ''Invalid UI config'')"
    using convert_rejects_missing_fields [of "JStr ''Starbucks Helper''" sample_runtime]
    by simp
  from h 1 2 show ?thesis by simp
qed

text \<open>
  The input of claim C3's failure: scenario A without the \<open>features\<close> key is accepted, and
  its descriptor has no tools.
\<close>

theorem features_key_not_required_counterexample:
  "get_prop input_without_features ''features'' = JUndefined
   \<and> convertUIConfigToPluginConfig sample_runtime input_without_features =
       Inr (basic_config ''3f2b8c1e-0000-4000-8000-000000000001''
             (JStr ''urn:agent:agentify:starbucks-helper'') (JStr ''help customers''))"
  by code_simp

text \<open>
  Claim C3, amended. The feature flags are not a required key. For an object without the
  \<open>features\<close> key, the validation error \<open>Missing required UI config fields\<close> is thrown exactly
  when the display name, the personality text, the instructions text or the settings
  object is missing or falsy; and when a descriptor is returned, it has no tools.
\<close>

theorem required_keys_exclude_features:
  assumes "get_prop x ''features'' = JUndefined" and "truthy x" and "typeof x = ''object''"
  shows "(convertUIConfigToPluginConfig rt x = Inl (Error ''Missing required UI config fields''))
           = (\<not> truthy (get_prop x ''name'') \<or> \<not> truthy (get_prop x ''personality'')
              \<or> \<not> truthy (get_prop x ''instructions'') \<or> \<not> truthy (get_prop x ''settings''))
         \<and> (\<forall>d. convertUIConfigToPluginConfig rt x = Inr d \<longrightarrow> tools d = [])"
proof -
  have "tools d = []" if "convertUIConfigToPluginConfig rt x = Inr d" for d
    using convert_shape [OF that] assms(1)
    by (auto simp: spec_expand_features_def spec_feature_catalog_def)
  moreover
  have "(convertUIConfigToPluginConfig rt x = Inl (Error ''Missing required UI config fields''))
           = (\<not> truthy (get_prop x ''name'') \<or> \<not> truthy (get_prop x ''personality'')
              \<or> \<not> truthy (get_prop x ''instructions'') \<or> \<not> truthy (get_prop x ''settings''))"
  proof
    assume "convertUIConfigToPluginConfig rt x = Inl (Error ''Missing required UI config fields'')"
    from convert_Inl_D [OF this]
    show "\<not> truthy (get_prop x ''name'') \<or> \<not> truthy (get_prop x ''personality'')
              \<or> \<not> truthy (get_prop x ''instructions'') \<or> \<not> truthy (get_prop x ''settings'')"
      by auto
  next
    assume "\<not> truthy (get_prop x ''name'') \<or> \<not> truthy (get_prop x ''personality'')
              \<or> \<not> truthy (get_prop x ''instructions'') \<or> \<not> truthy (get_prop x ''settings'')"
    with assms(2,3)
    show "convertUIConfigToPluginConfig rt x = Inl (Error ''Missing required UI config fields'')"
      unfolding convertUIConfigToPluginConfig_def Let_def by auto
  qed
  ultimately show ?thesis by blast
qed

theorem required_keys_exclude_features_witness:
  "get_prop input_without_features ''features'' = JUndefined
   \<and> truthy input_without_features \<and> typeof input_without_features = ''object''
   \<and> convertUIConfigToPluginConfig sample_runtime input_without_features
       \<noteq> Inl (Error ''Missing required UI config fields'')
   \<and> tools (projr (convertUIConfigToPluginConfig sample_runtime input_without_features)) = []"
proof -
  let ?D = "basic_config ''3f2b8c1e-0000-4000-8000-000000000001''
             (JStr ''urn:agent:agentify:starbucks-helper'') (JStr ''help customers'')"
  have r: "convertUIConfigToPluginConfig sample_runtime input_without_features = Inr ?D"
    by code_simp
  have h: "get_prop input_without_features ''features'' = JUndefined"
    "truthy input_without_features" "typeof input_without_features = ''object''"
    by (simp_all add: input_without_features_def)
  from required_keys_exclude_features [OF h, of sample_runtime] have "tools ?D = []"
    using r by simp
  with h show ?thesis unfolding r by simp
qed

section \<open>The basic descriptor\<close>

text \<open>
  Claim C4. For every input that the converter accepts, the descriptor's \<open>agent_name\<close> is
  the \<open>agent_name\<close> of the input when one is present (supplied with a truthy value, that is
  a non-empty one), and otherwise \<open>urn:agent:agentify:\<close> followed by the display name in
  lower case with every run of whitespace replaced by one hyphen; it is never empty.
\<close>

theorem agent_name_existing_or_slug:
  assumes "convertUIConfigToPluginConfig rt x = Inr d"
  shows "(truthy (get_prop x ''agent_name'') \<longrightarrow> agent_name d = get_prop x ''agent_name'')
         \<and> (\<not> truthy (get_prop x ''agent_name'') \<longrightarrow>
              (\<exists>n. get_prop x ''name'' = JStr n \<and> n \<noteq> [] \<and>
                   agent_name d =
                     JStr (''urn:agent:agentify:'' @ replace_whitespace (toLowerCase n))))
         \<and> truthy (agent_name d)"
proof -
  from convert_shape [OF assms] obtain nm where
    nm: "make_agent_name (get_prop x ''agent_name'') (get_prop x ''name'') = Inr nm"
    and d: "agent_name d = nm"
    by (auto simp: basic_config_def)
  from convert_Inr_D [OF assms] have tn: "truthy (get_prop x ''name'')" by simp
  show ?thesis
  proof (cases "truthy (get_prop x ''agent_name'')")
    case True
    with nm d show ?thesis by (simp add: make_agent_name_def)
  next
    case False
    with nm d tn show ?thesis
      by (cases "get_prop x ''name''") (auto simp: make_agent_name_def)
  qed
qed

text \<open>Scenario A: the display name \<open>Starbucks Helper\<close> and no \<open>agent_name\<close>.\<close>

theorem agent_name_existing_or_slug_witness:
  "convertUIConfigToPluginConfig sample_runtime scenario_A = Inr scenario_A_descriptor
   \<and> agent_name scenario_A_descriptor = JStr ''urn:agent:agentify:starbucks-helper''"
proof -
  have s: "replace_whitespace (toLowerCase ''Starbucks Helper'') = ''starbucks-helper''"
    by code_simp
  from agent_name_existing_or_slug [OF scenario_A_result]
  have "agent_name scenario_A_descriptor = JStr ''urn:agent:agentify:starbucks-helper''"
    by (simp add: scenario_A_def s)
  with scenario_A_result show ?thesis by (rule conjI)
qed

text \<open>
  Claim C5. Every descriptor that the converter returns carries the default isolation
  settings: process level, 512 MB of memory, 1 core, a time limit of 60 s, network access
  allowed and file-system access denied.
\<close>

theorem isolation_always_default:
  assumes "convertUIConfigToPluginConfig rt x = Inr d"
  shows "trustedExecutionEnvironment d =
           \<lparr>isolationLevel = Process,
            resourceLimits = \<lparr>memory = 512, cpu = 1, timeLimit = 60\<rparr>,
            networkAccess = True,
            fileSystemAccess = False\<rparr>"
  using convert_shape [OF assms] by (auto simp: basic_config_def)

theorem isolation_always_default_witness:
  "convertUIConfigToPluginConfig sample_runtime scenario_A = Inr scenario_A_descriptor
   \<and> trustedExecutionEnvironment scenario_A_descriptor =
           \<lparr>isolationLevel = Process,
            resourceLimits = \<lparr>memory = 512, cpu = 1, timeLimit = 60\<rparr>,
            networkAccess = True,
            fileSystemAccess = False\<rparr>"
  using scenario_A_result isolation_always_default [OF scenario_A_result] by (rule conjI)

section \<open>Feature flags and auxiliary settings\<close>

text \<open>
  Claim C2. The tools of a returned descriptor are the order-preserving expansion of the
  feature flags over the fixed catalog chat, automation, analytics: one fixed tool for each
  flag that the features object enables, in the order chat, automate, analyze, with pairwise
  distinct names; absent, falsy and unknown flags add nothing. With all three flags \<open>true\<close>
  the tools are exactly chat, automate, analyze.
\<close>

theorem feature_expansion_order_preserving:
  assumes "convertUIConfigToPluginConfig rt x = Inr d"
  shows "tools d = spec_expand_features (get_prop x ''features'')
         \<and> distinct (map tool_name (tools d))
         \<and> (get_prop (get_prop x ''features'') ''chat'' = JBool True
            \<and> get_prop (get_prop x ''features'') ''automation'' = JBool True
            \<and> get_prop (get_prop x ''features'') ''analytics'' = JBool True
            \<longrightarrow> map tool_name (tools d) = [''chat'', ''automate'', ''analyze''])"
proof -
  from convert_shape [OF assms]
  have t: "tools d = spec_expand_features (get_prop x ''features'')"
    by (auto simp: basic_config_def)
  have "distinct (map tool_name (spec_expand_features f))" for f
    by (simp add: spec_expand_features_def spec_feature_catalog_def chat_tool_def
        automate_tool_def analyze_tool_def)
  moreover
  have "map tool_name (spec_expand_features f) = [''chat'', ''automate'', ''analyze'']"
    if "get_prop f ''chat'' = JBool True" "get_prop f ''automation'' = JBool True"
      "get_prop f ''analytics'' = JBool True" for f
    using that
    by (simp add: spec_expand_features_def spec_feature_catalog_def chat_tool_def
        automate_tool_def analyze_tool_def)
  ultimately show ?thesis using t by simp
qed

text \<open>Scenario B: all three flags are \<open>true\<close>.\<close>

theorem feature_expansion_order_preserving_witness:
  "convertUIConfigToPluginConfig sample_runtime scenario_B = Inr scenario_B_descriptor
   \<and> map tool_name (tools scenario_B_descriptor) = [''chat'', ''automate'', ''analyze'']"
proof -
  have r: "convertUIConfigToPluginConfig sample_runtime scenario_B = Inr scenario_B_descriptor"
    by code_simp
  have p: "get_prop (get_prop scenario_B ''features'') ''chat'' = JBool True
           \<and> get_prop (get_prop scenario_B ''features'') ''automation'' = JBool True
           \<and> get_prop (get_prop scenario_B ''features'') ''analytics'' = JBool True"
    by (simp add: scenario_B_def)
  from feature_expansion_order_preserving [OF r] p
  have "map tool_name (tools scenario_B_descriptor) = [''chat'', ''automate'', ''analyze'']"
    by blast
  with r show ?thesis by (rule conjI)
qed

subsection \<open>Resource names\<close>

lemma digit_value_digit_char: "d < 10 \<Longrightarrow> digit_value (digit_char d) = d"
  by (simp add: digit_value_def digit_char_def)

lemma decimal_value_index_toString: "decimal_value (index_toString n) = n"
proof (induction n rule: index_toString.induct)
  case (1 n)
  show ?case
  proof (cases "n < 10")
    case True
    then show ?thesis
      by (subst index_toString.simps) (simp add: decimal_value_def digit_value_digit_char)
  next
    case False
    with 1 have "decimal_value (index_toString (n div 10)) = n div 10" by simp
    with False show ?thesis
      by (subst index_toString.simps) (simp add: decimal_value_def digit_value_digit_char)
  qed
qed

lemma index_toString_inj: "index_toString m = index_toString n \<Longrightarrow> m = n"
  by (metis decimal_value_index_toString)

lemma mcp_server_name_inj: "mcp_server_name m = mcp_server_name n \<Longrightarrow> m = n"
  by (simp add: mcp_server_name_def index_toString_inj)

lemma mcp_names:
  "map res_name (map (\<lambda>(j, s). mcp_resource rt j s) L) = map mcp_server_name (map fst L)"
  by (induction L) (auto simp: mcp_resource_def)

lemma enabled_servers_indices: "distinct (map fst (spec_enabled_servers settings))"
proof -
  have d: "distinct (map fst (filter P (zip [0..<length xs] xs)))" for P and xs :: "jsval list"
    by (rule distinct_map_filter) simp
  show ?thesis
    unfolding spec_enabled_servers_def
    by (cases "get_prop settings ''mcpServers''") (simp_all add: d)
qed

lemma mcp_names_distinct:
  "distinct (map res_name (map (\<lambda>(j, s). mcp_resource rt j s) (spec_enabled_servers settings)))"
proof -
  have "inj_on mcp_server_name A" for A
    by (rule inj_onI) (rule mcp_server_name_inj)
  with enabled_servers_indices [of settings] show ?thesis
    unfolding mcp_names by (simp only: distinct_map)
qed

lemma mcp_names_prefix:
  "n \<in> set (map res_name (map (\<lambda>(j, s). mcp_resource rt j s) L))
   \<Longrightarrow> \<exists>t. n = ''mcp_server_'' @ t"
  unfolding mcp_names by (auto simp: mcp_server_name_def)

lemma creativity_names:
  "set (map res_name (spec_creativity_resources rt settings)) \<subseteq> {''creativity_parameter''}"
  "distinct (map res_name (spec_creativity_resources rt settings))"
  by (auto simp: spec_creativity_resources_def creativity_resource_def split: sum.splits)

lemma spec_resources_distinct: "distinct (map res_name (spec_resources rt settings apiKeys))"
proof -
  let ?m = "map res_name (map (\<lambda>(j, s). mcp_resource rt j s) (spec_enabled_servers settings))"
  let ?c = "map res_name (spec_creativity_resources rt settings)"
  have mc: "set ?m \<inter> set ?c = {}"
  proof -
    have "n \<notin> set ?c" if "n \<in> set ?m" for n
    proof -
      from mcp_names_prefix [OF that] obtain t where "n = ''mcp_server_'' @ t" ..
      then have "n \<noteq> ''creativity_parameter''" by simp
      with creativity_names(1) [of rt settings] show ?thesis by blast
    qed
    then show ?thesis by blast
  qed
  have ma: "''api_keys'' \<notin> set ?m"
  proof
    assume "''api_keys'' \<in> set ?m"
    from mcp_names_prefix [OF this] show False by simp
  qed
  have ca: "''api_keys'' \<notin> set ?c"
    using creativity_names(1) [of rt settings] by auto
  show ?thesis
    using mcp_names_distinct [of rt settings] creativity_names(2) [of rt settings] mc ma ca
    by (simp add: spec_resources_def api_keys_resource_def)
qed

lemma spec_resources_embedded:
  "r \<in> set (spec_resources rt settings apiKeys) \<Longrightarrow> res_isEmbedded r"
  by (auto simp: spec_resources_def spec_creativity_resources_def creativity_resource_def
      api_keys_resource_def mcp_resource_def split: sum.splits if_splits)

text \<open>
  Claim C6. The resources of a returned descriptor are, in this order: for each MCP server
  whose \<open>enabled\<close> flag is set, one embedded JSON resource named \<open>mcp_server_\<close> plus the
  server's index, whose content is the serialised server; when the creativity is defined,
  one embedded text resource \<open>creativity_parameter\<close> whose content is the creativity as a
  string; when API keys are supplied, one embedded JSON resource \<open>api_keys\<close> whose content is
  the serialised credential object. The resource names are pairwise distinct. (A creativity
  that is defined always has a string rendering here: an input whose creativity is \<open>null\<close>
  makes the converter throw, so that no descriptor is returned.)
\<close>

theorem auxiliary_settings_resources:
  assumes "convertUIConfigToPluginConfig rt x = Inr d"
  shows "resources d =
           map (\<lambda>(index, server).
                  \<lparr>res_name = ''mcp_server_'' @ index_toString index, res_type = Json,
                   res_content = JSON_stringify rt server, res_isEmbedded = True\<rparr>)
             (spec_enabled_servers (get_prop x ''settings''))
           @ (case toString_method (Number_toString rt)
                     (get_prop (get_prop x ''settings'') ''creativity'') of
                Inl e \<Rightarrow> []
              | Inr s \<Rightarrow> [\<lparr>res_name = ''creativity_parameter'', res_type = Text,
                           res_content = s, res_isEmbedded = True\<rparr>])
           @ (if truthy (get_prop x ''apiKeys'')
              then [\<lparr>res_name = ''api_keys'', res_type = Json,
                     res_content = JSON_stringify rt (get_prop x ''apiKeys''),
                     res_isEmbedded = True\<rparr>]
              else [])
         \<and> (get_prop (get_prop x ''settings'') ''creativity'' \<noteq> JUndefined \<longrightarrow>
              (\<exists>s. toString_method (Number_toString rt)
                     (get_prop (get_prop x ''settings'') ''creativity'') = Inr s))
         \<and> get_prop (get_prop x ''settings'') ''creativity'' \<noteq> JNull
         \<and> distinct (map res_name (resources d))
         \<and> (\<forall>r \<in> set (resources d). res_isEmbedded r)"
proof -
  from convert_shape [OF assms]
  have r: "resources d = spec_resources rt (get_prop x ''settings'') (get_prop x ''apiKeys'')"
    by (auto simp: basic_config_def)
  have c: "spec_creativity_resources rt s =
             (case toString_method (Number_toString rt) (get_prop s ''creativity'') of
                Inl e \<Rightarrow> []
              | Inr t \<Rightarrow> [\<lparr>res_name = ''creativity_parameter'', res_type = Text,
                           res_content = t, res_isEmbedded = True\<rparr>])" for s
    by (auto simp: spec_creativity_resources_def creativity_resource_def split: sum.splits)
  have 1: "resources d =
           map (\<lambda>(index, server).
                  \<lparr>res_name = ''mcp_server_'' @ index_toString index, res_type = Json,
                   res_content = JSON_stringify rt server, res_isEmbedded = True\<rparr>)
             (spec_enabled_servers (get_prop x ''settings''))
           @ (case toString_method (Number_toString rt)
                     (get_prop (get_prop x ''settings'') ''creativity'') of
                Inl e \<Rightarrow> []
              | Inr s \<Rightarrow> [\<lparr>res_name = ''creativity_parameter'', res_type = Text,
                           res_content = s, res_isEmbedded = True\<rparr>])
           @ (if truthy (get_prop x ''apiKeys'')
              then [\<lparr>res_name = ''api_keys'', res_type = Json,
                     res_content = JSON_stringify rt (get_prop x ''apiKeys''),
                     res_isEmbedded = True\<rparr>]
              else [])"
    unfolding r spec_resources_def c
    by (auto simp: mcp_resource_def mcp_server_name_def api_keys_resource_def)
  have 2: "distinct (map res_name (resources d))"
    unfolding r by (rule spec_resources_distinct)
  have 3: "\<forall>r \<in> set (resources d). res_isEmbedded r"
    unfolding r using spec_resources_embedded by blast
  have 4: "get_prop (get_prop x ''settings'') ''creativity'' \<noteq> JNull"
  proof
    assume n: "get_prop (get_prop x ''settings'') ''creativity'' = JNull"
    then have "get_prop (get_prop x ''settings'') ''creativity'' \<noteq> JUndefined" by simp
    from convert_creativity_ok [OF assms this] n show False by simp
  qed
  from 1 convert_creativity_ok [OF assms] 2 3 4 show ?thesis by blast
qed

text \<open>
  Three servers with the second one disabled, a creativity of one half and one credential:
  the resources are the texts of servers 0 and 2, of the creativity and of the credentials.
\<close>

lemma input_with_services_result:
  "convertUIConfigToPluginConfig json_runtime input_with_services
     = Inr input_with_services_descriptor"
  by code_simp

theorem auxiliary_settings_resources_witness:
  \<open>convertUIConfigToPluginConfig json_runtime input_with_services
     = Inr input_with_services_descriptor
   \<and> resources input_with_services_descriptor =
        [\<lparr>res_name = ''mcp_server_0'', res_type = Json,
          res_content = ''{"url":"http://a","name":"a","enabled":true}'',
          res_isEmbedded = True\<rparr>,
         \<lparr>res_name = ''mcp_server_2'', res_type = Json,
          res_content = ''{"url":"http://c","name":"c","enabled":true}'',
          res_isEmbedded = True\<rparr>,
         \<lparr>res_name = ''creativity_parameter'', res_type = Text,
          res_content = ''0.5'', res_isEmbedded = True\<rparr>,
         \<lparr>res_name = ''api_keys'', res_type = Json,
          res_content = ''{"openai":"sk-1"}'', res_isEmbedded = True\<rparr>]
   \<and> distinct (map res_name (resources input_with_services_descriptor))\<close>
proof -
  note t = auxiliary_settings_resources [OF input_with_services_result]
  have e: \<open>map (\<lambda>(index, server).
                  \<lparr>res_name = ''mcp_server_'' @ index_toString index, res_type = Json,
                   res_content = JSON_stringify json_runtime server, res_isEmbedded = True\<rparr>)
             (spec_enabled_servers (get_prop input_with_services ''settings''))
           @ (case toString_method (Number_toString json_runtime)
                     (get_prop (get_prop input_with_services ''settings'') ''creativity'') of
                Inl e \<Rightarrow> []
              | Inr s \<Rightarrow> [\<lparr>res_name = ''creativity_parameter'', res_type = Text,
                           res_content = s, res_isEmbedded = True\<rparr>])
           @ (if truthy (get_prop input_with_services ''apiKeys'')
              then [\<lparr>res_name = ''api_keys'', res_type = Json,
                     res_content = JSON_stringify json_runtime (get_prop input_with_services ''apiKeys''),
                     res_isEmbedded = True\<rparr>]
              else [])
       = [\<lparr>res_name = ''mcp_server_0'', res_type = Json,
          res_content = ''{"url":"http://a","name":"a","enabled":true}'',
          res_isEmbedded = True\<rparr>,
         \<lparr>res_name = ''mcp_server_2'', res_type = Json,
          res_content = ''{"url":"http://c","name":"c","enabled":true}'',
          res_isEmbedded = True\<rparr>,
         \<lparr>res_name = ''creativity_parameter'', res_type = Text,
          res_content = ''0.5'', res_isEmbedded = True\<rparr>,
         \<lparr>res_name = ''api_keys'', res_type = Json,
          res_content = ''{"openai":"sk-1"}'', res_isEmbedded = True\<rparr>]\<close>
    by code_simp
  note 1 = t [THEN conjunct1, unfolded e]
  from t have 2: "distinct (map res_name (resources input_with_services_descriptor))" by blast
  from input_with_services_result 1 2 show ?thesis by blast
qed

section \<open>Normalising twice\<close>

subsection \<open>The rendering gives the tools and the resources back\<close>

lemma features_roundtrip:
  "tools d = spec_expand_features f \<Longrightarrow> spec_expand_features (rendered_features d) = tools d"
  by (simp add: spec_expand_features_def spec_feature_catalog_def rendered_features_def
      chat_tool_def automate_tool_def analyze_tool_def)

lemma forEach_server_ok:
  "\<forall>s \<in> set xs. s \<noteq> JNull \<and> s \<noteq> JUndefined \<Longrightarrow>
   forEach_server rt xs i c =
     Inr (c\<lparr>resources := resources c @
            map (\<lambda>(j, s). mcp_resource rt j s)
              (filter (\<lambda>(j, s). truthy (get_prop s ''enabled'')) (zip [i..<i + length xs] xs))\<rparr>)"
proof (induction xs arbitrary: i c)
  case Nil
  then show ?case by simp
next
  case (Cons x xs)
  have up: "[i..<i + length (x # xs)] = i # [Suc i..<Suc i + length xs]"
    by (simp add: upt_rec)
  from Cons.prems have x: "x \<noteq> JNull" "x \<noteq> JUndefined"
    and xs: "\<forall>s \<in> set xs. s \<noteq> JNull \<and> s \<noteq> JUndefined"
    by simp_all
  show ?case
    unfolding up using x Cons.IH [OF xs] by (simp add: push_resource_def)
qed

lemma fold_max_ge: "a \<le> fold max xs (a :: nat)"
  by (induction xs arbitrary: a) (auto intro: order_trans [OF max.cobounded2])

lemma fold_max_bound: "x \<in> set xs \<Longrightarrow> x \<le> fold max xs (a :: nat)"
proof (induction xs arbitrary: a)
  case Nil
  then show ?case by simp
next
  case (Cons y ys)
  show ?case
  proof (cases "x = y")
    case True
    have "x \<le> max y a" using True by simp
    also have "\<dots> \<le> fold max ys (max y a)" by (rule fold_max_ge)
    finally show ?thesis by simp
  next
    case False
    with Cons show ?thesis by simp
  qed
qed

lemma zip_map_same: "zip xs (map g xs) = map (\<lambda>i. (i, g i)) xs"
  by (induction xs) auto

lemma find_append_eq:
  "find P (xs @ ys) = (case find P xs of None \<Rightarrow> find P ys | Some x \<Rightarrow> Some x)"
  by (induction xs) auto

lemma find_none: "\<forall>x \<in> set xs. \<not> P x \<Longrightarrow> find P xs = None"
  by (induction xs) auto

lemma enabled_servers_sorted: "sorted (map fst (spec_enabled_servers settings))"
proof -
  have s: "sorted (map fst (filter P (zip [0..<length xs] xs)))" for P and xs :: "jsval list"
    by (rule sorted_filter) simp
  show ?thesis
    unfolding spec_enabled_servers_def
    by (cases "get_prop settings ''mcpServers''") (simp_all add: s)
qed

lemma enabled_servers_enabled:
  "(i, s) \<in> set (spec_enabled_servers settings) \<Longrightarrow> truthy (get_prop s ''enabled'')"
  unfolding spec_enabled_servers_def
  by (cases "get_prop settings ''mcpServers''") auto

lemma mcp_entries_mcp:
  "mcp_entries (map (\<lambda>(i, s). mcp_resource rt i s) E) = map (\<lambda>(i, s). (i, JSON_stringify rt s)) E"
  by (induction E)
    (auto simp: mcp_entries_def mcp_resource_def mcp_server_name_def decimal_value_index_toString)

lemma mcp_entries_append: "mcp_entries (xs @ ys) = mcp_entries xs @ mcp_entries ys"
  by (simp add: mcp_entries_def)

lemma mcp_entries_resources:
  "mcp_entries (spec_resources rt settings apiKeys)
     = map (\<lambda>(i, s). (i, JSON_stringify rt s)) (spec_enabled_servers settings)"
proof -
  have c: "mcp_entries (spec_creativity_resources rt settings) = []"
    by (simp add: mcp_entries_def spec_creativity_resources_def creativity_resource_def
        split: sum.splits)
  have a: "mcp_entries (if truthy apiKeys then [api_keys_resource rt apiKeys] else []) = []"
    by (simp add: mcp_entries_def api_keys_resource_def)
  show ?thesis
    unfolding spec_resources_def mcp_entries_append mcp_entries_mcp c a by simp
qed

lemma rendered_servers_roundtrip:
  fixes E :: "(nat \<times> jsval) list"
  assumes sorted: "sorted (map fst E)" and distinct: "distinct (map fst E)"
    and enabled: "\<And>i s. (i, s) \<in> set E \<Longrightarrow> truthy (get_prop s ''enabled'')"
    and parse: "\<And>i s. (i, s) \<in> set E \<Longrightarrow> parse (st s) = s"
    and entries: "mcp_entries rs = map (\<lambda>(i, s). (i, st s)) E"
  shows "filter (\<lambda>(j, s). truthy (get_prop s ''enabled''))
           (zip [0..<length (rendered_servers parse rs)] (rendered_servers parse rs)) = E"
    and "\<forall>s \<in> set (rendered_servers parse rs). s \<noteq> JNull \<and> s \<noteq> JUndefined"
proof -
  let ?es = "mcp_entries rs"
  define g where "g = (\<lambda>index. case map_of ?es index of
                     Some text \<Rightarrow> parse text
                   | None \<Rightarrow> JObj [(''enabled'', JBool False)])"
  define n where "n = fold max (map (\<lambda>(index, text). Suc index) ?es) 0"
  have S: "rendered_servers parse rs = map g [0..<n]"
    by (simp add: rendered_servers_def g_def n_def)
  have keys: "map fst ?es = map fst E"
    unfolding entries by (induction E) auto
  have a: "map_of ?es i = Some (st s)" if "(i, s) \<in> set E" for i s
  proof -
    from that have "(i, st s) \<in> set ?es" unfolding entries by force
    moreover from distinct keys have "distinct (map fst ?es)" by simp
    ultimately show ?thesis by (rule map_of_is_SomeI [rotated])
  qed
  have b: "map_of ?es i = None" if "i \<notin> fst ` set E" for i
  proof -
    from that keys have "i \<notin> fst ` set ?es" by (metis set_map)
    then show ?thesis by (simp add: map_of_eq_None_iff)
  qed
  have c: "g i = s" if "(i, s) \<in> set E" for i s
    using a [OF that] parse [OF that] by (simp add: g_def)
  have d: "truthy (get_prop (g i) ''enabled'') = (i \<in> fst ` set E)" for i
  proof (cases "i \<in> fst ` set E")
    case True
    then obtain s where s: "(i, s) \<in> set E" by force
    from c [OF s] enabled [OF s] True show ?thesis by simp
  next
    case False
    from b [OF False] False show ?thesis by (simp add: g_def)
  qed
  have e: "i < n" if "(i, s) \<in> set E" for i s
  proof -
    from that have "(i, st s) \<in> set ?es" unfolding entries by force
    then have "Suc i \<in> set (map (\<lambda>(index, text). Suc index) ?es)" by force
    from fold_max_bound [OF this, of 0] show ?thesis by (simp add: n_def)
  qed
  have f: "filter (\<lambda>i. i \<in> fst ` set E) [0..<n] = map fst E"
  proof (rule sorted_distinct_set_unique)
    show "sorted (filter (\<lambda>i. i \<in> fst ` set E) [0..<n])" by (rule sorted_wrt_filter) simp
    show "distinct (filter (\<lambda>i. i \<in> fst ` set E) [0..<n])" by simp
    show "sorted (map fst E)" by (rule sorted)
    show "distinct (map fst E)" by (rule distinct)
    show "set (filter (\<lambda>i. i \<in> fst ` set E) [0..<n]) = set (map fst E)"
      using e by auto
  qed
  have "filter (\<lambda>(j, s). truthy (get_prop s ''enabled'')) (zip [0..<n] (map g [0..<n]))
        = map (\<lambda>i. (i, g i)) (filter (\<lambda>i. i \<in> fst ` set E) [0..<n])"
    unfolding zip_map_same by (simp add: filter_map comp_def d)
  also have "\<dots> = map (\<lambda>i. (i, g i)) (map fst E)" by (simp only: f)
  also have "\<dots> = E"
  proof -
    have "map (\<lambda>p. (fst p, g (fst p))) E = map (\<lambda>p. p) E"
      by (rule map_cong [OF refl]) (use c in force)
    then show ?thesis by (simp add: comp_def)
  qed
  finally show "filter (\<lambda>(j, s). truthy (get_prop s ''enabled''))
           (zip [0..<length (rendered_servers parse rs)] (rendered_servers parse rs)) = E"
    by (simp add: S)
  show "\<forall>s \<in> set (rendered_servers parse rs). s \<noteq> JNull \<and> s \<noteq> JUndefined"
  proof
    fix s assume "s \<in> set (rendered_servers parse rs)"
    then obtain i where i: "s = g i" unfolding S by auto
    show "s \<noteq> JNull \<and> s \<noteq> JUndefined"
    proof (cases "i \<in> fst ` set E")
      case True
      with d [of i] have "truthy (get_prop s ''enabled'')" by (simp add: i)
      then show ?thesis by auto
    next
      case False
      from b [OF False] show ?thesis by (simp add: i g_def)
    qed
  qed
qed

subsection \<open>Normalising the rendering\<close>

lemma make_agent_name_truthy: "make_agent_name e n = Inr nm \<Longrightarrow> truthy nm"
  by (cases n) (auto simp: make_agent_name_def split: if_splits)

lemma mcp_resource_name: "res_name (mcp_resource rt i s) = ''mcp_server_'' @ index_toString i"
  by (simp add: mcp_resource_def mcp_server_name_def)

lemma find_creativity:
  "find (\<lambda>r. res_name r = ''creativity_parameter'') (spec_resources rt settings apiKeys)
     = (case spec_creativity_resources rt settings of [] \<Rightarrow> None | r # rs \<Rightarrow> Some r)"
proof -
  have m: "find (\<lambda>r. res_name r = ''creativity_parameter'')
             (map (\<lambda>(i, s). mcp_resource rt i s) E) = None" for E
    by (rule find_none) (auto simp: mcp_resource_name)
  show ?thesis
    unfolding spec_resources_def find_append_eq m
    by (simp add: spec_creativity_resources_def creativity_resource_def api_keys_resource_def
        split: sum.splits)
qed

lemma find_api_keys:
  "find (\<lambda>r. res_name r = ''api_keys'') (spec_resources rt settings apiKeys)
     = (if truthy apiKeys then Some (api_keys_resource rt apiKeys) else None)"
proof -
  have m: "find (\<lambda>r. res_name r = ''api_keys'')
             (map (\<lambda>(i, s). mcp_resource rt i s) E) = None" for E
    by (rule find_none) (auto simp: mcp_resource_name)
  show ?thesis
    unfolding spec_resources_def find_append_eq m
    by (simp add: spec_creativity_resources_def creativity_resource_def api_keys_resource_def
        split: sum.splits)
qed

lemma convert_object:
  assumes "truthy y" and "typeof y = ''object''"
    and "truthy (get_prop y ''name'')" and "truthy (get_prop y ''personality'')"
    and "truthy (get_prop y ''instructions'')" and "truthy (get_prop y ''settings'')"
    and "make_agent_name (get_prop y ''agent_name'') (get_prop y ''name'') = Inr nm"
    and "add_mcp_servers rt (get_prop y ''settings'')
           (add_feature_tools (get_prop y ''features'')
              (basic_config (uuidv4 rt) nm (get_prop y ''instructions''))) = Inr c1"
    and "add_creativity rt (get_prop y ''settings'') c1 = Inr c2"
  shows "convertUIConfigToPluginConfig rt y = Inr (add_api_keys rt (get_prop y ''apiKeys'') c2)"
  using assms unfolding convertUIConfigToPluginConfig_def Let_def by simp

lemma renormalize_rendering:
  assumes conv: "convertUIConfigToPluginConfig rt x = Inr d"
    and servers: "\<And>i s. (i, s) \<in> set (spec_enabled_servers (get_prop x ''settings''))
                    \<Longrightarrow> parse (JSON_stringify rt s) = s"
    and keys: "truthy (get_prop x ''apiKeys'')
                 \<Longrightarrow> parse (JSON_stringify rt (get_prop x ''apiKeys'')) = get_prop x ''apiKeys''"
    and creativity: "\<And>s. toString_method (Number_toString rt)
                          (get_prop (get_prop x ''settings'') ''creativity'') = Inr s
                    \<Longrightarrow> parse s = get_prop (get_prop x ''settings'') ''creativity''"
  shows "convertUIConfigToPluginConfig (rt\<lparr>uuidv4 := ident\<rparr>) (asRawInput parse d)
           = Inr (with_identifier ident d)"
proof -
  let ?rt' = "rt\<lparr>uuidv4 := ident\<rparr>"
  let ?settings = "get_prop x ''settings''"
  let ?apiKeys = "get_prop x ''apiKeys''"
  let ?instr = "get_prop x ''instructions''"
  let ?T = "spec_expand_features (get_prop x ''features'')"
  let ?R = "spec_resources rt ?settings ?apiKeys"
  let ?E = "spec_enabled_servers ?settings"
  let ?C = "spec_creativity_resources rt ?settings"
  let ?A = "if truthy ?apiKeys then [api_keys_resource rt ?apiKeys] else []"
  let ?y = "asRawInput parse d"
  from convert_shape [OF conv] obtain nm where
    nm: "make_agent_name (get_prop x ''agent_name'') (get_prop x ''name'') = Inr nm"
    and d: "d = (basic_config (uuidv4 rt) nm ?instr)\<lparr>tools := ?T, resources := ?R\<rparr>"
    by blast
  from make_agent_name_truthy [OF nm] have tnm: "truthy nm" .
  from convert_Inr_D [OF conv] have ti: "truthy ?instr" by simp
  have fd: "agent_name d = nm" "description d = ?instr" "tools d = ?T" "resources d = ?R"
    by (simp_all add: d basic_config_def)
  let ?keys = "case find (\<lambda>r. res_name r = ''api_keys'') ?R of
                 None \<Rightarrow> JUndefined | Some r \<Rightarrow> parse (res_content r)"
  have y: "truthy ?y" "typeof ?y = ''object''"
    "get_prop ?y ''name'' = nm" "get_prop ?y ''agent_name'' = nm"
    "get_prop ?y ''personality'' = ?instr" "get_prop ?y ''instructions'' = ?instr"
    "get_prop ?y ''features'' = rendered_features d"
    "get_prop ?y ''settings'' = rendered_settings parse ?R"
    "get_prop ?y ''apiKeys'' = ?keys"
    by (simp_all add: asRawInput_def fd split: option.splits)
  have yk: "?keys = (if truthy ?apiKeys then ?apiKeys else JUndefined)"
    using keys by (simp add: find_api_keys api_keys_resource_def)
  let ?b = "basic_config ident nm ?instr"
  have 1: "make_agent_name nm nm = Inr nm"
    using tnm by (simp add: make_agent_name_def)
  have 2: "add_feature_tools (rendered_features d) ?b = ?b\<lparr>tools := ?T\<rparr>"
    using features_roundtrip [OF fd(3)]
    by (simp add: add_feature_tools_eq fd(3) basic_config_def)
  have rs: "get_prop (rendered_settings parse ?R) ''mcpServers'' = JArr (rendered_servers parse ?R)"
    "truthy (rendered_settings parse ?R)"
    by (simp_all add: rendered_settings_def)
  note rr = rendered_servers_roundtrip [where E = ?E and st = "JSON_stringify rt"
      and parse = parse and rs = ?R,
      OF enabled_servers_sorted enabled_servers_indices enabled_servers_enabled servers
        mcp_entries_resources]
  have mr: "mcp_resource ?rt' = mcp_resource rt"
    by (simp add: fun_eq_iff mcp_resource_def)
  have 3: "add_mcp_servers ?rt' (rendered_settings parse ?R) (?b\<lparr>tools := ?T\<rparr>)
             = Inr (?b\<lparr>tools := ?T, resources := map (\<lambda>(i, s). mcp_resource rt i s) ?E\<rparr>)"
    unfolding add_mcp_servers_def
    using rs forEach_server_ok [OF rr(2), where rt = ?rt' and i = 0 and c = "?b\<lparr>tools := ?T\<rparr>"] rr(1)
    by (simp add: mr basic_config_def)
  have rc: "get_prop (rendered_settings parse ?R) ''creativity''
              = (case ?C of [] \<Rightarrow> JUndefined | r # rs \<Rightarrow> parse (res_content r))"
    by (simp add: rendered_settings_def find_creativity split: list.splits)
  have 4: "add_creativity ?rt' (rendered_settings parse ?R) c = Inr (c\<lparr>resources := resources c @ ?C\<rparr>)"
    for c
  proof (cases "get_prop ?settings ''creativity'' = JUndefined")
    case True
    then have "?C = []" by (simp add: spec_creativity_resources_def)
    then show ?thesis using rc by (simp add: add_creativity_def)
  next
    case False
    from convert_creativity_ok [OF conv False] obtain s where
      s: "toString_method (Number_toString rt) (get_prop ?settings ''creativity'') = Inr s" ..
    with False have C: "?C = [creativity_resource s]"
      by (simp add: spec_creativity_resources_def)
    from creativity [OF s] have p: "parse s = get_prop ?settings ''creativity''" .
    show ?thesis
      using rc rs(2) s False
      by (simp add: add_creativity_def C creativity_resource_def p push_resource_def)
  qed
  have 5: "add_api_keys ?rt' ?keys c = c\<lparr>resources := resources c @ ?A\<rparr>" for c
    unfolding yk by (simp add: add_api_keys_eq api_keys_resource_def)
  let ?c1 = "?b\<lparr>tools := ?T, resources := map (\<lambda>(i, s). mcp_resource rt i s) ?E\<rparr>"
  let ?c2 = "?c1\<lparr>resources := resources ?c1 @ ?C\<rparr>"
  have "convertUIConfigToPluginConfig ?rt' ?y
          = Inr (add_api_keys ?rt' (get_prop ?y ''apiKeys'') ?c2)"
  proof (rule convert_object [where nm = nm and ?c1.0 = ?c1])
    show "truthy ?y" and "typeof ?y = ''object''" by (rule y)+
    show "truthy (get_prop ?y ''name'')" by (simp add: y tnm)
    show "truthy (get_prop ?y ''personality'')" by (simp add: y ti)
    show "truthy (get_prop ?y ''instructions'')" by (simp add: y ti)
    show "truthy (get_prop ?y ''settings'')" by (simp add: y rs)
    show "make_agent_name (get_prop ?y ''agent_name'') (get_prop ?y ''name'') = Inr nm"
      by (simp add: y 1)
    show "add_mcp_servers ?rt' (get_prop ?y ''settings'')
           (add_feature_tools (get_prop ?y ''features'')
              (basic_config (uuidv4 ?rt') nm (get_prop ?y ''instructions''))) = Inr ?c1"
      by (simp add: y 2 3)
    show "add_creativity ?rt' (get_prop ?y ''settings'') ?c1 = Inr ?c2"
      unfolding y by (rule 4)
  qed
  also have "\<dots> = Inr (with_identifier ident d)"
    unfolding y(9) 5
    by (simp add: d with_identifier_def basic_config_def spec_resources_def)
  finally show ?thesis .
qed

lemma convert_identifiers:
  assumes "convertUIConfigToPluginConfig rt x = Inr d"
  shows "agent_id d = uuidv4 rt
         \<and> facts_url d = ''https://agentify.example.com/agents/'' @ uuidv4 rt"
  using convert_shape [OF assms] by (auto simp: basic_config_def)

text \<open>
  The input of claim C7's failure: scenario A is normalised to a descriptor; its rendering
  has the keys of a raw input; normalised again, after the identifier source has yielded
  another identifier, it gives a descriptor with another \<open>agent_id\<close> and \<open>facts_url\<close>.
\<close>

theorem normalization_not_idempotent_counterexample:
  "convertUIConfigToPluginConfig json_runtime scenario_A = Inr scenario_A_descriptor
   \<and> asRawInput sample_parse scenario_A_descriptor =
       JObj [(''name'', JStr ''urn:agent:agentify:starbucks-helper''),
             (''agent_name'', JStr ''urn:agent:agentify:starbucks-helper''),
             (''personality'', JStr ''help customers''),
             (''instructions'', JStr ''help customers''),
             (''features'', JObj [(''chat'', JBool True), (''automation'', JBool False),
                                 (''analytics'', JBool False)]),
             (''settings'', JObj [(''mcpServers'', JArr [])])]
   \<and> convertUIConfigToPluginConfig json_runtime_fresh (asRawInput sample_parse scenario_A_descriptor)
       = Inr (scenario_A_descriptor
               \<lparr>agent_id := ''9c1d4e7a-0000-4000-8000-000000000002'',
                facts_url := ''https://agentify.example.com/agents/9c1d4e7a-0000-4000-8000-000000000002''\<rparr>)
   \<and> convertUIConfigToPluginConfig json_runtime_fresh (asRawInput sample_parse scenario_A_descriptor)
       \<noteq> convertUIConfigToPluginConfig json_runtime scenario_A"
  by code_simp

text \<open>
  Claim C7, amended. Normalisation is idempotent except for the identifier fields. Let a raw
  input be normalised to a descriptor, and let \<open>JSON.parse\<close> give back the servers, the
  credentials and the creativity that were serialised for it. Then normalising the
  descriptor's rendering returns the same descriptor with \<open>agent_id\<close> and \<open>facts_url\<close> taken
  from the newly drawn identifier. This is the same descriptor exactly when the identifier
  source repeats the identifier; under another identifier no raw input at all is normalised
  to it.
\<close>

theorem renormalization_fresh_identifier:
  assumes "convertUIConfigToPluginConfig rt x = Inr d"
  shows "((\<forall>(index, server) \<in> set (spec_enabled_servers (get_prop x ''settings'')).
             parse (JSON_stringify rt server) = server)
          \<and> (truthy (get_prop x ''apiKeys'') \<longrightarrow>
                parse (JSON_stringify rt (get_prop x ''apiKeys'')) = get_prop x ''apiKeys'')
          \<and> (\<forall>s. toString_method (Number_toString rt)
                     (get_prop (get_prop x ''settings'') ''creativity'') = Inr s \<longrightarrow>
                   parse s = get_prop (get_prop x ''settings'') ''creativity'')
          \<longrightarrow> convertUIConfigToPluginConfig (rt\<lparr>uuidv4 := ident\<rparr>) (asRawInput parse d)
                = Inr (d\<lparr>agent_id := ident,
                          facts_url := ''https://agentify.example.com/agents/'' @ ident\<rparr>))
         \<and> ((d\<lparr>agent_id := ident,
                 facts_url := ''https://agentify.example.com/agents/'' @ ident\<rparr> = d)
              = (ident = uuidv4 rt))
         \<and> (\<forall>rt' y. uuidv4 rt' \<noteq> uuidv4 rt \<longrightarrow> convertUIConfigToPluginConfig rt' y \<noteq> Inr d)"
proof -
  have 1: "convertUIConfigToPluginConfig (rt\<lparr>uuidv4 := ident\<rparr>) (asRawInput parse d)
                = Inr (d\<lparr>agent_id := ident,
                          facts_url := ''https://agentify.example.com/agents/'' @ ident\<rparr>)"
    if "\<forall>(index, server) \<in> set (spec_enabled_servers (get_prop x ''settings'')).
             parse (JSON_stringify rt server) = server"
      and "truthy (get_prop x ''apiKeys'') \<longrightarrow>
                parse (JSON_stringify rt (get_prop x ''apiKeys'')) = get_prop x ''apiKeys''"
      and "\<forall>s. toString_method (Number_toString rt)
                     (get_prop (get_prop x ''settings'') ''creativity'') = Inr s \<longrightarrow>
                   parse s = get_prop (get_prop x ''settings'') ''creativity''"
    using renormalize_rendering [OF assms, of parse ident] that
    by (fastforce simp: with_identifier_def)
  from convert_identifiers [OF assms] have ids: "agent_id d = uuidv4 rt"
    "facts_url d = ''https://agentify.example.com/agents/'' @ uuidv4 rt"
    by simp_all
  have 2: "(d\<lparr>agent_id := ident,
                 facts_url := ''https://agentify.example.com/agents/'' @ ident\<rparr> = d)
              = (ident = uuidv4 rt)"
  proof
    assume "d\<lparr>agent_id := ident,
                 facts_url := ''https://agentify.example.com/agents/'' @ ident\<rparr> = d"
    then have "agent_id (d\<lparr>agent_id := ident,
                 facts_url := ''https://agentify.example.com/agents/'' @ ident\<rparr>) = agent_id d"
      by simp
    with ids show "ident = uuidv4 rt" by simp
  next
    assume "ident = uuidv4 rt"
    with ids show "d\<lparr>agent_id := ident,
                 facts_url := ''https://agentify.example.com/agents/'' @ ident\<rparr> = d"
      by simp
  qed
  have 3: "convertUIConfigToPluginConfig rt' y \<noteq> Inr d" if "uuidv4 rt' \<noteq> uuidv4 rt" for rt' y
  proof
    assume "convertUIConfigToPluginConfig rt' y = Inr d"
    from convert_identifiers [OF this] ids that show False by simp
  qed
  from 1 2 3 show ?thesis by blast
qed

text \<open>The input with three services, rendered and normalised under another identifier.\<close>

theorem renormalization_fresh_identifier_witness:
  "convertUIConfigToPluginConfig json_runtime input_with_services
     = Inr input_with_services_descriptor
   \<and> convertUIConfigToPluginConfig json_runtime_fresh
       (asRawInput sample_parse input_with_services_descriptor)
     = Inr (input_with_services_descriptor
             \<lparr>agent_id := second_identifier,
              facts_url := ''https://agentify.example.com/agents/'' @ second_identifier\<rparr>)"
proof -
  note t = renormalization_fresh_identifier [OF input_with_services_result,
      of sample_parse second_identifier, THEN conjunct1]
  have E: "spec_enabled_servers (get_prop input_with_services ''settings'')
             = [(0, sample_server_a), (2, sample_server_c)]"
    by code_simp
  have a: "sample_parse (JSON_stringify json_runtime sample_server_a) = sample_server_a"
    by code_simp
  have c: "sample_parse (JSON_stringify json_runtime sample_server_c) = sample_server_c"
    by code_simp
  have k: "get_prop input_with_services ''apiKeys'' = sample_api_keys"
    by (simp add: input_with_services_def)
  have k': "sample_parse (JSON_stringify json_runtime sample_api_keys) = sample_api_keys"
    by code_simp
  have v: "get_prop (get_prop input_with_services ''settings'') ''creativity'' = sample_creativity"
    by (simp add: input_with_services_def)
  have v': "toString_method (Number_toString json_runtime) sample_creativity = Inr ''0.5''"
    by code_simp
  have v'': "sample_parse ''0.5'' = sample_creativity"
    by code_simp
  have h1: "\<forall>(index, server) \<in> set (spec_enabled_servers (get_prop input_with_services ''settings'')).
             sample_parse (JSON_stringify json_runtime server) = server"
    unfolding E using a c by simp
  have h2: "truthy (get_prop input_with_services ''apiKeys'') \<longrightarrow>
              sample_parse (JSON_stringify json_runtime (get_prop input_with_services ''apiKeys''))
                = get_prop input_with_services ''apiKeys''"
    unfolding k using k' by simp
  have h3: "\<forall>s. toString_method (Number_toString json_runtime)
                     (get_prop (get_prop input_with_services ''settings'') ''creativity'') = Inr s \<longrightarrow>
                   sample_parse s = get_prop (get_prop input_with_services ''settings'') ''creativity''"
    unfolding v v' using v'' by simp
  from t h1 h2 h3
  have "convertUIConfigToPluginConfig (json_runtime\<lparr>uuidv4 := second_identifier\<rparr>)
       (asRawInput sample_parse input_with_services_descriptor)
     = Inr (input_with_services_descriptor
             \<lparr>agent_id := second_identifier,
              facts_url := ''https://agentify.example.com/agents/'' @ second_identifier\<rparr>)"
    by blast
  with input_with_services_result show ?thesis
    unfolding json_runtime_fresh_def by (rule conjI)
qed

section \<open>Raw tools and resources\<close>

text \<open>
  Claim C10. The \<open>tools\<close> and \<open>resources\<close> arrays of the raw input are ignored: two inputs
  that differ only in these two fields give the same result under the same runtime. The
  tools of a descriptor are determined by the feature flags, its resources by the settings
  and the API keys, and its prompts are always the empty array.
\<close>

theorem raw_tools_resources_ignored:
  assumes "\<forall>k. k \<noteq> ''tools'' \<and> k \<noteq> ''resources'' \<longrightarrow> map_of kvs k = map_of kvs' k"
  shows "convertUIConfigToPluginConfig rt (JObj kvs) = convertUIConfigToPluginConfig rt (JObj kvs')
         \<and> (\<forall>d. convertUIConfigToPluginConfig rt (JObj kvs) = Inr d \<longrightarrow>
                tools d = spec_expand_features (get_prop (JObj kvs') ''features'')
              \<and> resources d = spec_resources rt (get_prop (JObj kvs') ''settings'')
                                 (get_prop (JObj kvs') ''apiKeys'')
              \<and> prompts d = [])"
proof -
  have g: "get_prop (JObj kvs) k = get_prop (JObj kvs') k"
    if "k \<noteq> ''tools''" "k \<noteq> ''resources''" for k
    using assms that by simp
  have e: "convertUIConfigToPluginConfig rt (JObj kvs) = convertUIConfigToPluginConfig rt (JObj kvs')"
    unfolding convertUIConfigToPluginConfig_def
    by (simp add: g del: get_prop.simps)
  have "tools d = spec_expand_features (get_prop (JObj kvs') ''features'')
      \<and> resources d = spec_resources rt (get_prop (JObj kvs') ''settings'')
                                 (get_prop (JObj kvs') ''apiKeys'')
      \<and> prompts d = []"
    if "convertUIConfigToPluginConfig rt (JObj kvs) = Inr d" for d
    using convert_shape [OF that [unfolded e]] by (auto simp: basic_config_def)
  with e show ?thesis by blast
qed

text \<open>Scenario A, and scenario A with a \<open>shell\<close> tool and a \<open>notes\<close> resource of its own.\<close>

theorem raw_tools_resources_ignored_witness:
  "convertUIConfigToPluginConfig sample_runtime (JObj scenario_A_extra_properties)
     = convertUIConfigToPluginConfig sample_runtime (JObj scenario_A_properties)
   \<and> convertUIConfigToPluginConfig sample_runtime (JObj scenario_A_extra_properties)
     = Inr scenario_A_descriptor
   \<and> tools scenario_A_descriptor = [chat_tool]
   \<and> resources scenario_A_descriptor = []"
proof -
  have h: "\<forall>k. k \<noteq> ''tools'' \<and> k \<noteq> ''resources'' \<longrightarrow>
             map_of scenario_A_extra_properties k = map_of scenario_A_properties k"
    by (simp add: scenario_A_extra_properties_def)
  have a: "convertUIConfigToPluginConfig sample_runtime (JObj scenario_A_properties)
             = Inr scenario_A_descriptor"
    by code_simp
  have t: "tools scenario_A_descriptor = [chat_tool] \<and> resources scenario_A_descriptor = []"
    by (simp add: scenario_A_descriptor_def basic_config_def)
  from raw_tools_resources_ignored [OF h, of sample_runtime]
  have e: "convertUIConfigToPluginConfig sample_runtime (JObj scenario_A_extra_properties)
     = convertUIConfigToPluginConfig sample_runtime (JObj scenario_A_properties)"
    by blast
  from e a t show ?thesis by simp
qed

section \<open>The toolchain check\<close>

text \<open>
  Claim C8. \<open>installToolchain\<close> is called exactly when the environment is not production and
  the toolchain check reports go or python missing, and then once; in production, or when
  every tool is available, it is not called. Whatever the installation does, also when it
  throws, the function goes on to return the service; the fall-back to mock compilation is
  logged exactly when an attempted installation throws.
\<close>

theorem install_only_non_production:
  "(Call_installToolchain \<in> set (fst (check_and_install tc NODE_ENV install_result)))
     = (NODE_ENV \<noteq> Some ''production'' \<and> (\<not> go tc \<or> \<not> python tc))
   \<and> snd (check_and_install tc NODE_ENV install_result) = Inr ()
   \<and> count_list (fst (check_and_install tc NODE_ENV install_result)) Call_installToolchain \<le> 1
   \<and> (Log_falling_back \<in> set (fst (check_and_install tc NODE_ENV install_result)))
       = (isl install_result \<and> NODE_ENV \<noteq> Some ''production'' \<and> (\<not> go tc \<or> \<not> python tc))"
  by (cases install_result)
    (auto simp: check_and_install_def try_install_def call_installToolchain_def Let_def)

text \<open>
  Go is missing: in development the installation is attempted, and its failure is logged
  and swallowed; in production it is not attempted.
\<close>

theorem install_only_non_production_witness:
  "Call_installToolchain \<in> set (fst (check_and_install \<lparr>go = False, python = True, gcc = True\<rparr>
       (Some ''development'') (Inl (Error ''install failed''))))
   \<and> snd (check_and_install \<lparr>go = False, python = True, gcc = True\<rparr>
       (Some ''development'') (Inl (Error ''install failed''))) = Inr ()
   \<and> Log_falling_back \<in> set (fst (check_and_install \<lparr>go = False, python = True, gcc = True\<rparr>
       (Some ''development'') (Inl (Error ''install failed''))))
   \<and> Call_installToolchain \<notin> set (fst (check_and_install \<lparr>go = False, python = True, gcc = True\<rparr>
       (Some ''production'') (Inl (Error ''install failed''))))"
  using install_only_non_production [of "\<lparr>go = False, python = True, gcc = True\<rparr>"
      "Some ''development''" "Inl (Error ''install failed'')"]
    install_only_non_production [of "\<lparr>go = False, python = True, gcc = True\<rparr>"
      "Some ''production''" "Inl (Error ''install failed'')"]
  by simp

text \<open>
  The input of claim C9's failure: go and python are available and gcc is not; the run does
  not enter the missing-toolchain branch, it logs nothing and returns the service.
\<close>

theorem gcc_missing_not_routed_counterexample:
  "gcc \<lparr>go = True, python = True, gcc = False\<rparr> = False
   \<and> check_and_install \<lparr>go = True, python = True, gcc = False\<rparr>
       (Some ''development'') (Inr ()) = ([], Inr ())"
  by (simp add: check_and_install_def)

text \<open>
  Claim C9, amended. The missing-toolchain branch is entered if and only if the toolchain
  check reports go or python unavailable. The availability of gcc is shown in the warning
  and does not decide the branch: changing it never changes whether the branch is entered.
\<close>

theorem missing_branch_iff_go_or_python:
  "enters_missing_branch (fst (check_and_install tc NODE_ENV install_result))
     = (\<not> go tc \<or> \<not> python tc)
   \<and> enters_missing_branch (fst (check_and_install (tc\<lparr>gcc := b\<rparr>) NODE_ENV install_result))
     = enters_missing_branch (fst (check_and_install tc NODE_ENV install_result))"
  by (cases install_result)
    (auto simp: check_and_install_def try_install_def call_installToolchain_def Let_def)

theorem missing_branch_iff_go_or_python_witness:
  "enters_missing_branch (fst (check_and_install \<lparr>go = True, python = False, gcc = True\<rparr>
       (Some ''production'') (Inr ())))
   \<and> enters_missing_branch (fst (check_and_install \<lparr>go = True, python = True, gcc = False\<rparr>
       (Some ''production'') (Inr ()))) = False"
  using missing_branch_iff_go_or_python [of "\<lparr>go = True, python = False, gcc = True\<rparr>"
      "Some ''production''" "Inr ()"]
    missing_branch_iff_go_or_python [of "\<lparr>go = True, python = True, gcc = False\<rparr>"
      "Some ''production''" "Inr ()"]
  by simp

end
